theory Spec2Isabelle
  imports Main
begin

section \<open>twlc: a leveled logger writing to the console and to a dated log file\<close>

text \<open>
  A shallow embedding of \<^verbatim>\<open>src/twlc.go\<close>. Go strings are byte strings and are modelled
  as \<^typ>\<open>string\<close>. The operating system (clock, file system, standard streams, process
  exit) is an explicit \<open>world\<close> record threaded through every operation; a call either
  returns, or ends the process through \<^verbatim>\<open>log.Fatalf\<close> (\<^verbatim>\<open>os.Exit(1)\<close>) or a panic.
  \<^verbatim>\<open>StructToString\<close> (lines 130-135) only forwards to \<^verbatim>\<open>fmt.Sprintf\<close> and is left out.
\<close>

subsection \<open>Severities and the colour table\<close>

text \<open>\<^verbatim>\<open>type MessageType string\<close>: any string is a value of the type.\<close>

type_synonym MessageType = string

definition Info :: MessageType where "Info = ''INFO''"
definition Success :: MessageType where "Success = ''SUCCESS''"
definition Warning :: MessageType where "Warning = ''WARNING''"
definition Error :: MessageType where "Error = ''ERROR''"
definition Debug :: MessageType where "Debug = ''DEBUG''"
definition Trace :: MessageType where "Trace = ''TRACE''"

text \<open>The byte 033 (escape) that starts every ANSI sequence, and the line feed.\<close>

definition ESC :: char where "ESC = CHR 0x1B"
definition LF :: char where "LF = CHR 0x0A"

definition colorMap :: "MessageType \<rightharpoonup> string" where
  "colorMap = map_of
     [(Info, ESC # ''[34m''),
      (Success, ESC # ''[32m''),
      (Warning, ESC # ''[33m''),
      (Error, ESC # ''[31m''),
      (Debug, ESC # ''[35m''),
      (Trace, ESC # ''[36m'')]"

text \<open>The reset sequence \<^verbatim>\<open>"\033[0m"\<close> written inline in \<^verbatim>\<open>setColor\<close>.\<close>

definition reset_seq :: string where "reset_seq = ESC # ''[0m''"

subsection \<open>The logger record\<close>

record Twlc =
  SaveInLogFile :: bool
  ShowInConsole :: bool
  ColorMessages :: bool
  BGColor :: bool
  FGColor :: bool
  WithTime :: bool
  LogDir :: string
  LogFilePath :: string

text \<open>\<^verbatim>\<open>setColor\<close> (lines 78-92): look the severity up; without an entry both values pass
  through; otherwise the message is wrapped when \<open>FGColor\<close> is set and the tag when
  \<open>BGColor\<close> is set, both with the colour found for the original tag.\<close>

definition setColor :: "Twlc \<Rightarrow> MessageType \<Rightarrow> string \<Rightarrow> MessageType \<times> string" where
  "setColor t messageType message =
     (case colorMap messageType of
        None \<Rightarrow> (messageType, message)
      | Some color \<Rightarrow>
          (let message' = (if FGColor t then color @ message @ reset_seq else message);
               messageType' = (if BGColor t then color @ messageType @ reset_seq else messageType)
           in (messageType', message')))"

subsection \<open>Clock values and their formatting\<close>

record time =
  year :: nat
  month :: nat
  day :: nat
  hour :: nat
  minute :: nat
  second :: nat

text \<open>Decimal digits of a number, most significant first.\<close>

fun digits :: "nat \<Rightarrow> string" where
  "digits n = (if n < 10 then [''0123456789'' ! n] else digits (n div 10) @ [''0123456789'' ! (n mod 10)])"

declare digits.simps [simp del]

text \<open>\<^verbatim>\<open>appendInt(b, x, width)\<close> of package time and \<^verbatim>\<open>itoa(buf, i, wid)\<close> of package log,
  for a non-negative number: the digits, padded with zeros on the left up to the width.\<close>

definition appendInt :: "nat \<Rightarrow> nat \<Rightarrow> string" where
  "appendInt x width = replicate (width - length (digits x)) CHR ''0'' @ digits x"

text \<open>\<^verbatim>\<open>time.Now().Format("20060102")\<close>: the year on four digits, the month and the day on two.\<close>

definition Format_20060102 :: "time \<Rightarrow> string" where
  "Format_20060102 tm = appendInt (year tm) 4 @ appendInt (month tm) 2 @ appendInt (day tm) 2"

text \<open>The header a \<^verbatim>\<open>log.Logger\<close> with \<^verbatim>\<open>LstdFlags\<close> writes: \<^verbatim>\<open>2006/01/02 15:04:05\<close> and a
  space.\<close>

definition LstdFlags_header :: "time \<Rightarrow> string" where
  "LstdFlags_header tm =
     appendInt (year tm) 4 @ ''/'' @ appendInt (month tm) 2 @ ''/'' @ appendInt (day tm) 2 @ '' '' @
     appendInt (hour tm) 2 @ '':'' @ appendInt (minute tm) 2 @ '':'' @ appendInt (second tm) 2 @ '' ''"



subsection \<open>Paths: \<^verbatim>\<open>filepath.Clean\<close>, \<^verbatim>\<open>filepath.Join\<close> and \<^verbatim>\<open>filepath.Dir\<close> on Unix\<close>

text \<open>The backtracking of a \<^verbatim>\<open>..\<close> element: \<^verbatim>\<open>out.w--\<close>, then down to the last separator or
  to \<open>dotdot\<close>.\<close>

fun backtrack :: "nat \<Rightarrow> string \<Rightarrow> nat \<Rightarrow> nat" where
  "backtrack dotdot out 0 = 0"
| "backtrack dotdot out (Suc w) =
     (if Suc w > dotdot \<and> out ! (Suc w) \<noteq> CHR ''/'' then backtrack dotdot out w else Suc w)"

text \<open>The loop of \<^verbatim>\<open>Clean\<close> over the unread part \<^verbatim>\<open>path[r:]\<close>, with the output written so far
  and the index \<open>dotdot\<close>; it returns both at the end of the path.\<close>

function clean_loop :: "bool \<Rightarrow> string \<Rightarrow> nat \<Rightarrow> string \<Rightarrow> string \<times> nat" where
  "clean_loop rooted out dotdot [] = (out, dotdot)"
| "clean_loop rooted out dotdot (c # cs) =
     (if c = CHR ''/'' then clean_loop rooted out dotdot cs
      else if c = CHR ''.'' \<and> (cs = [] \<or> hd cs = CHR ''/'') then clean_loop rooted out dotdot cs
      else if c = CHR ''.'' \<and> hd cs = CHR ''.'' \<and> (tl cs = [] \<or> hd (tl cs) = CHR ''/'') then
        (if length out > dotdot then
           clean_loop rooted (take (backtrack dotdot out (length out - 1)) out) dotdot (tl cs)
         else if \<not> rooted then
           (let out' = (if out \<noteq> [] then out @ ''/'' else out) @ ''..''
            in clean_loop rooted out' (length out') (tl cs))
         else clean_loop rooted out dotdot (tl cs))
      else
        (let out' = (if (rooted \<and> length out \<noteq> 1) \<or> (\<not> rooted \<and> length out \<noteq> 0)
                     then out @ ''/'' else out)
         in clean_loop rooted (out' @ takeWhile (\<lambda>x. x \<noteq> CHR ''/'') (c # cs)) dotdot
              (dropWhile (\<lambda>x. x \<noteq> CHR ''/'') (c # cs))))"
  by pat_completeness auto
termination
proof (relation "measure (\<lambda>(rooted, out, dotdot, cs). length cs)")
  show "wf (measure (\<lambda>(rooted, out, dotdot, cs). length cs))" by simp
next
  fix rooted :: bool and out :: string and dotdot :: nat and c :: char and cs :: string
    and x :: string
  assume "c \<noteq> CHR ''/''"
  then have "length (dropWhile (\<lambda>x. x \<noteq> CHR ''/'') (c # cs)) \<le> length cs"
    by (simp add: length_dropWhile_le)
  then show "((rooted, x @ takeWhile (\<lambda>x. x \<noteq> CHR ''/'') (c # cs), dotdot,
               dropWhile (\<lambda>x. x \<noteq> CHR ''/'') (c # cs)), rooted, out, dotdot, c # cs)
             \<in> measure (\<lambda>(rooted, out, dotdot, cs). length cs)"
    by simp
qed auto

declare clean_loop.simps(2) [simp del]

definition filepath_Clean :: "string \<Rightarrow> string" where
  "filepath_Clean path =
     (if path = [] then ''.''
      else
        (let rooted = (hd path = CHR ''/'');
             res = (if rooted then fst (clean_loop True ''/'' 1 (tl path))
                    else fst (clean_loop False [] 0 path))
         in if res = [] then ''.'' else res))"

text \<open>\<^verbatim>\<open>filepath.Join(a, b)\<close>: the elements from the first non-empty one on, joined with
  the separator and cleaned; the empty string when both are empty.\<close>

definition filepath_Join :: "string \<Rightarrow> string \<Rightarrow> string" where
  "filepath_Join a b =
     (if a \<noteq> [] then filepath_Clean (a @ ''/'' @ b)
      else if b \<noteq> [] then filepath_Clean b
      else [])"

text \<open>\<^verbatim>\<open>filepath.Dir(path)\<close>: everything up to and including the last separator, cleaned.\<close>

definition filepath_Dir :: "string \<Rightarrow> string" where
  "filepath_Dir path = filepath_Clean (rev (dropWhile (\<lambda>x. x \<noteq> CHR ''/'') (rev path)))"

subsection \<open>The operating system\<close>

text \<open>What a call can observe and change. The clock is read as \<open>now\<close> and does not advance
  inside one call. \<open>files\<close> holds the regular files with their contents and \<open>dirs\<close> the
  directories. The five tables give, for a path, the error text with which that system call
  fails there (any cause: permissions, a missing parent, a full disk); they are the
  environment's choice and the model constrains them in no way. \<open>handles\<close> lists the open
  file descriptors, \<open>trace\<close> the system calls made so far, oldest first.\<close>

datatype event =
    EvStat string
  | EvMkdirAll string
  | EvCreate string "nat option"
  | EvOpenFile string "nat option"
  | EvWrite nat string
  | EvClose nat
  | EvStdout string
  | EvStderr string
  | EvExit nat
  | EvPanic string

record world =
  now :: time
  executable :: "string + string"
  files :: "string \<rightharpoonup> string"
  dirs :: "string set"
  stat_err :: "string \<rightharpoonup> string"
  mkdir_err :: "string \<rightharpoonup> string"
  create_err :: "string \<rightharpoonup> string"
  open_err :: "string \<rightharpoonup> string"
  write_err :: "string \<rightharpoonup> string"
  handles :: "nat list"
  next_fd :: nat
  stdout :: string
  stderr :: string
  trace :: "event list"

text \<open>How a call ends: it returns a value, or the process ends in \<^verbatim>\<open>os.Exit(1)\<close> or in a
  panic. The world at that moment comes with each.\<close>

datatype 'a result = Returned 'a world | Exited world | Panicked string world

fun world_of :: "'a result \<Rightarrow> world" where
  "world_of (Returned x w) = w"
| "world_of (Exited w) = w"
| "world_of (Panicked e w) = w"

fun returned :: "'a result \<Rightarrow> bool" where
  "returned (Returned x w) = True"
| "returned (Exited w) = False"
| "returned (Panicked e w) = False"

fun exited :: "'a result \<Rightarrow> bool" where
  "exited (Returned x w) = False"
| "exited (Exited w) = True"
| "exited (Panicked e w) = False"

fun value_of :: "'a result \<Rightarrow> 'a option" where
  "value_of (Returned x w) = Some x"
| "value_of (Exited w) = None"
| "value_of (Panicked e w) = None"

definition emit :: "event \<Rightarrow> world \<Rightarrow> world" where
  "emit e w = w\<lparr>trace := trace w @ [e]\<rparr>"

text \<open>The three outcomes of \<^verbatim>\<open>os.Stat\<close> the code tells apart: no error, an error for which
  \<^verbatim>\<open>os.IsNotExist\<close> holds, any other error.\<close>

datatype stat_result = StatOk | StatNotExist | StatError string

definition os_Stat :: "string \<Rightarrow> world \<Rightarrow> stat_result \<times> world" where
  "os_Stat name w =
     ((case stat_err w name of
         Some e \<Rightarrow> StatError e
       | None \<Rightarrow> if files w name \<noteq> None \<or> name \<in> dirs w then StatOk else StatNotExist),
      emit (EvStat name) w)"

definition os_MkdirAll :: "string \<Rightarrow> world \<Rightarrow> string option \<times> world" where
  "os_MkdirAll name w =
     (case mkdir_err w name of
        Some e \<Rightarrow> (Some e, emit (EvMkdirAll name) w)
      | None \<Rightarrow> (None, emit (EvMkdirAll name) (w\<lparr>dirs := insert name (dirs w)\<rparr>)))"

text \<open>An open \<^verbatim>\<open>*os.File\<close>: its descriptor and its name.\<close>

datatype os_File = File nat string

text \<open>\<^verbatim>\<open>os.Create\<close>: the file is created, or truncated when it exists.\<close>

definition os_Create :: "string \<Rightarrow> world \<Rightarrow> (string + os_File) \<times> world" where
  "os_Create name w =
     (case create_err w name of
        Some e \<Rightarrow> (Inl e, emit (EvCreate name None) w)
      | None \<Rightarrow>
          (Inr (File (next_fd w) name),
           emit (EvCreate name (Some (next_fd w)))
             (w\<lparr>files := (files w)(name \<mapsto> []),
                handles := next_fd w # handles w,
                next_fd := Suc (next_fd w)\<rparr>)))"

text \<open>\<^verbatim>\<open>os.OpenFile(name, os.O_APPEND|os.O_CREATE|os.O_WRONLY, 0644)\<close>: the file is created
  empty when it is missing and keeps its contents otherwise.\<close>

definition os_OpenFile :: "string \<Rightarrow> world \<Rightarrow> (string + os_File) \<times> world" where
  "os_OpenFile name w =
     (case open_err w name of
        Some e \<Rightarrow> (Inl e, emit (EvOpenFile name None) w)
      | None \<Rightarrow>
          (Inr (File (next_fd w) name),
           emit (EvOpenFile name (Some (next_fd w)))
             (w\<lparr>files := (case files w name of None \<Rightarrow> (files w)(name \<mapsto> []) | Some c \<Rightarrow> files w),
                handles := next_fd w # handles w,
                next_fd := Suc (next_fd w)\<rparr>)))"

text \<open>\<^verbatim>\<open>file.Close()\<close>; both call sites drop the error it returns.\<close>

fun File_Close :: "os_File \<Rightarrow> world \<Rightarrow> world" where
  "File_Close (File fd name) w = emit (EvClose fd) (w\<lparr>handles := remove1 fd (handles w)\<rparr>)"

text \<open>\<^verbatim>\<open>file.Write(data)\<close> on a file opened for appending.\<close>

fun File_Write :: "os_File \<Rightarrow> string \<Rightarrow> world \<Rightarrow> string option \<times> world" where
  "File_Write (File fd name) data w =
     (if fd \<notin> set (handles w) then (Some ''file already closed'', emit (EvWrite fd data) w)
      else case write_err w name of
        Some e \<Rightarrow> (Some e, emit (EvWrite fd data) w)
      | None \<Rightarrow>
          (None,
           emit (EvWrite fd data)
             (w\<lparr>files := (files w)(name \<mapsto> (case files w name of None \<Rightarrow> [] | Some c \<Rightarrow> c) @ data)\<rparr>)))"

definition write_stdout :: "string \<Rightarrow> world \<Rightarrow> world" where
  "write_stdout s w = emit (EvStdout s) (w\<lparr>stdout := stdout w @ s\<rparr>)"

definition write_stderr :: "string \<Rightarrow> world \<Rightarrow> world" where
  "write_stderr s w = emit (EvStderr s) (w\<lparr>stderr := stderr w @ s\<rparr>)"

subsection \<open>Packages \<^verbatim>\<open>log\<close> and \<^verbatim>\<open>fmt\<close>\<close>

text \<open>One line of a \<^verbatim>\<open>log.Logger\<close> with an empty prefix and \<^verbatim>\<open>LstdFlags\<close>: the date and
  time, with \<^verbatim>\<open>Lshortfile\<close> the file and line of the call (the only such call is line 62 of
  \<^verbatim>\<open>twlc.go\<close>), the text, and a line feed unless the text already ends in one.\<close>

definition log_line :: "time \<Rightarrow> bool \<Rightarrow> string \<Rightarrow> string" where
  "log_line tm shortfile s =
     LstdFlags_header tm @ (if shortfile then ''twlc.go:62: '' else []) @ s @
     (if s = [] \<or> last s \<noteq> LF then [LF] else [])"

text \<open>\<^verbatim>\<open>logger.Printf\<close> on a logger made by \<^verbatim>\<open>log.New(file, "", log.LstdFlags)\<close>: one write of
  the line; \<^verbatim>\<open>Printf\<close> returns nothing, so a failed write goes unreported.\<close>

definition Logger_Printf :: "os_File \<Rightarrow> bool \<Rightarrow> string \<Rightarrow> world \<Rightarrow> world" where
  "Logger_Printf file shortfile s w = snd (File_Write file (log_line (now w) shortfile s) w)"

text \<open>\<^verbatim>\<open>log.Printf\<close> and \<^verbatim>\<open>log.Fatalf\<close> of the standard logger in its initial configuration
  (\<^verbatim>\<open>LstdFlags\<close>, standard error); \<^verbatim>\<open>fmt.Printf\<close> writes to standard output.\<close>

definition log_Printf :: "string \<Rightarrow> world \<Rightarrow> world" where
  "log_Printf s w = write_stderr (log_line (now w) False s) w"

definition log_Fatalf :: "string \<Rightarrow> world \<Rightarrow> 'a result" where
  "log_Fatalf s w = Exited (emit (EvExit 1) (log_Printf s w))"

definition fmt_Printf :: "string \<Rightarrow> world \<Rightarrow> world" where
  "fmt_Printf s w = write_stdout s w"

text \<open>The format \<^verbatim>\<open>"[%s] %s"\<close> applied to a severity and a message.\<close>

definition bracketed :: "MessageType \<Rightarrow> string \<Rightarrow> string" where
  "bracketed messageType message = ''['' @ messageType @ ''] '' @ message"

subsection \<open>The logger's operations\<close>

text \<open>\<^verbatim>\<open>createLogFile\<close> (lines 149-157).\<close>

definition createLogFile :: "Twlc \<Rightarrow> world \<Rightarrow> unit result" where
  "createLogFile t w =
     (case os_Stat (LogFilePath t) w of
        (StatNotExist, w1) \<Rightarrow>
          (case os_Create (LogFilePath t) w1 of
             (Inl err, w2) \<Rightarrow> log_Fatalf (''Failed to create log file: '' @ err) w2
           | (Inr file, w2) \<Rightarrow> Returned () (File_Close file w2))
      | (StatOk, w1) \<Rightarrow> Returned () w1
      | (StatError e, w1) \<Rightarrow> Returned () w1)"

text \<open>\<^verbatim>\<open>createLogDir\<close> (lines 188-195).\<close>

definition createLogDir :: "string \<Rightarrow> world \<Rightarrow> unit result" where
  "createLogDir logDir w =
     (case os_Stat logDir w of
        (StatNotExist, w1) \<Rightarrow>
          (case os_MkdirAll logDir w1 of
             (Some err, w2) \<Rightarrow> log_Fatalf (''Failed to create log directory: '' @ err) w2
           | (None, w2) \<Rightarrow> Returned () w2)
      | (StatOk, w1) \<Rightarrow> Returned () w1
      | (StatError e, w1) \<Rightarrow> Returned () w1)"

text \<open>\<^verbatim>\<open>NewTwlc\<close> (lines 159-171); the literal leaves \<open>LogFilePath\<close> at its zero value.\<close>

definition NewTwlc :: "bool \<Rightarrow> bool \<Rightarrow> bool \<Rightarrow> bool \<Rightarrow> bool \<Rightarrow> bool \<Rightarrow> string \<Rightarrow> world \<Rightarrow> Twlc result" where
  "NewTwlc saveInLogFile showInConsole colorMessages bgColor fgColor withTime logDir w =
     (case createLogDir logDir w of
        Returned u w1 \<Rightarrow>
          Returned \<lparr>SaveInLogFile = saveInLogFile, ShowInConsole = showInConsole,
                    ColorMessages = colorMessages, BGColor = bgColor, FGColor = fgColor,
                    WithTime = withTime, LogDir = logDir, LogFilePath = []\<rparr> w1
      | Exited w1 \<Rightarrow> Exited w1
      | Panicked e w1 \<Rightarrow> Panicked e w1)"

text \<open>\<^verbatim>\<open>DefaultTwlc\<close> (lines 173-186).\<close>

definition DefaultTwlc :: "world \<Rightarrow> Twlc result" where
  "DefaultTwlc w =
     (case executable w of
        Inl err \<Rightarrow> Panicked err (emit (EvPanic err) w)
      | Inr exe \<Rightarrow>
          (let logDir = filepath_Dir exe @ ''/logs/'' in
           case createLogDir logDir w of
             Returned u w1 \<Rightarrow>
               Returned \<lparr>SaveInLogFile = True, ShowInConsole = True, ColorMessages = True,
                         BGColor = True, FGColor = True, WithTime = True, LogDir = logDir,
                         LogFilePath = []\<rparr> w1
           | Exited w1 \<Rightarrow> Exited w1
           | Panicked e w1 \<Rightarrow> Panicked e w1))"

text \<open>Lines 65-75 of \<^verbatim>\<open>WriteLog\<close>: the colouring, then the console.\<close>

definition colored :: "Twlc \<Rightarrow> MessageType \<Rightarrow> string \<Rightarrow> MessageType \<times> string" where
  "colored t messageType message =
     (if ColorMessages t then setColor t messageType message else (messageType, message))"

definition console_step :: "Twlc \<Rightarrow> MessageType \<Rightarrow> string \<Rightarrow> world \<Rightarrow> world" where
  "console_step t messageType message w =
     (case colored t messageType message of
        (messageType', message') \<Rightarrow>
          if ShowInConsole t then
            (if WithTime t then log_Printf (bracketed messageType' message') w
             else fmt_Printf (bracketed messageType' message' @ [LF]) w)
          else w)"

text \<open>\<^verbatim>\<open>WriteLog\<close> (lines 45-76). The deferred \<^verbatim>\<open>file.Close()\<close> runs when the function
  returns, after the console step; \<^verbatim>\<open>log.Fatalf\<close> ends the process without running it.\<close>

definition WriteLog :: "Twlc \<Rightarrow> MessageType \<Rightarrow> string \<Rightarrow> world \<Rightarrow> Twlc result" where
  "WriteLog t messageType message w =
     (if SaveInLogFile t then
        (let date = Format_20060102 (now w);
             t1 = t\<lparr>LogFilePath := filepath_Join (LogDir t) (''twlc_'' @ date @ ''.log'')\<rparr>
         in case createLogFile t1 w of
              Returned u w1 \<Rightarrow>
                (case os_OpenFile (LogFilePath t1) w1 of
                   (Inl err, w2) \<Rightarrow> log_Fatalf (''Failed to open log file: '' @ err) w2
                 | (Inr file, w2) \<Rightarrow>
                     (let w3 = Logger_Printf file (WithTime t1) (bracketed messageType message) w2;
                          w4 = console_step t1 messageType message w3
                      in Returned t1 (File_Close file w4)))
            | Exited w1 \<Rightarrow> Exited w1
            | Panicked e w1 \<Rightarrow> Panicked e w1)
      else Returned t (console_step t messageType message w))"

text \<open>The per-severity methods (lines 95-117).\<close>

definition Twlc_Error :: "Twlc \<Rightarrow> string \<Rightarrow> world \<Rightarrow> Twlc result" where
  "Twlc_Error t message w = WriteLog t Error message w"

definition Twlc_Warning :: "Twlc \<Rightarrow> string \<Rightarrow> world \<Rightarrow> Twlc result" where
  "Twlc_Warning t message w = WriteLog t Warning message w"

definition Twlc_Info :: "Twlc \<Rightarrow> string \<Rightarrow> world \<Rightarrow> Twlc result" where
  "Twlc_Info t message w = WriteLog t Info message w"

definition Twlc_Success :: "Twlc \<Rightarrow> string \<Rightarrow> world \<Rightarrow> Twlc result" where
  "Twlc_Success t message w = WriteLog t Success message w"

definition Twlc_Debug :: "Twlc \<Rightarrow> string \<Rightarrow> world \<Rightarrow> Twlc result" where
  "Twlc_Debug t message w = WriteLog t Debug message w"

definition Twlc_Trace :: "Twlc \<Rightarrow> string \<Rightarrow> world \<Rightarrow> Twlc result" where
  "Twlc_Trace t message w = WriteLog t Trace message w"


subsection \<open>Notions used to state the properties\<close>

text \<open>The path a persisting write computes (line 48).\<close>

definition log_path :: "Twlc \<Rightarrow> world \<Rightarrow> string" where
  "log_path t w = filepath_Join (LogDir t) (''twlc_'' @ Format_20060102 (now w) @ ''.log'')"

text \<open>\<^verbatim>\<open>os.Stat\<close> reports that nothing exists at the path.\<close>

definition not_exist :: "world \<Rightarrow> string \<Rightarrow> bool" where
  "not_exist w name = (stat_err w name = None \<and> files w name = None \<and> name \<notin> dirs w)"

text \<open>The environment makes the file step of a write end the process: the log file is
  missing and cannot be created, or it cannot be opened.\<close>

definition file_step_fatal :: "Twlc \<Rightarrow> world \<Rightarrow> bool" where
  "file_step_fatal t w =
     (SaveInLogFile t \<and>
      ((not_exist w (log_path t w) \<and> create_err w (log_path t w) \<noteq> None) \<or>
       open_err w (log_path t w) \<noteq> None))"

text \<open>The system calls a call added to the trace.\<close>

definition new_events :: "world \<Rightarrow> 'a result \<Rightarrow> event list" where
  "new_events w r = drop (length (trace w)) (trace (world_of r))"

text \<open>What each sink was handed: the data of the writes to files, and of the writes to the
  console (standard output and standard error).\<close>

fun file_data :: "event \<Rightarrow> string option" where
  "file_data (EvWrite fd s) = Some s"
| "file_data e = None"

fun console_data :: "event \<Rightarrow> string option" where
  "console_data (EvStdout s) = Some s"
| "console_data (EvStderr s) = Some s"
| "console_data e = None"

definition file_writes :: "event list \<Rightarrow> string list" where
  "file_writes es = List.map_filter file_data es"

definition console_writes :: "event list \<Rightarrow> string list" where
  "console_writes es = List.map_filter console_data es"

text \<open>The descriptors open after an event, given those open before it.\<close>

fun open_after :: "nat list \<Rightarrow> event \<Rightarrow> nat list" where
  "open_after hs (EvCreate name (Some fd)) = fd # hs"
| "open_after hs (EvOpenFile name (Some fd)) = fd # hs"
| "open_after hs (EvClose fd) = remove1 fd hs"
| "open_after hs e = hs"

text \<open>Some console write of the trace happens while a descriptor is open.\<close>

fun prints_while_open :: "nat list \<Rightarrow> event list \<Rightarrow> bool" where
  "prints_while_open hs [] = False"
| "prints_while_open hs (e # es) =
     ((console_data e \<noteq> None \<and> hs \<noteq> []) \<or> prints_while_open (open_after hs e) es)"

text \<open>A run of writes on one logger. Before each write the rest of the system acts on the
  world (the clock moves, files come and go): the first component of a step.\<close>

fun write_all :: "Twlc \<Rightarrow> ((world \<Rightarrow> world) \<times> MessageType \<times> string) list \<Rightarrow> world \<Rightarrow> Twlc result" where
  "write_all t [] w = Returned t w"
| "write_all t ((env, messageType, message) # steps) w =
     (case WriteLog t messageType message (env w) of
        Returned t' w' \<Rightarrow> write_all t' steps w'
      | Exited w' \<Rightarrow> Exited w'
      | Panicked e w' \<Rightarrow> Panicked e w')"



text \<open>The text the console step prints, and the event it adds to the trace: through
  \<^verbatim>\<open>log.Printf\<close> on standard error with timestamps, through \<^verbatim>\<open>fmt.Printf\<close> on standard
  output without.\<close>

definition console_line :: "Twlc \<Rightarrow> MessageType \<Rightarrow> string \<Rightarrow> time \<Rightarrow> string" where
  "console_line t S M tm =
     (if WithTime t then log_line tm False (bracketed (fst (colored t S M)) (snd (colored t S M)))
      else bracketed (fst (colored t S M)) (snd (colored t S M)) @ [LF])"

definition console_events :: "Twlc \<Rightarrow> MessageType \<Rightarrow> string \<Rightarrow> time \<Rightarrow> event list" where
  "console_events t S M tm =
     (if ShowInConsole t then
        [if WithTime t then EvStderr (console_line t S M tm) else EvStdout (console_line t S M tm)]
      else [])"

text \<open>The world in which a process ends through \<^verbatim>\<open>log.Fatalf\<close> right after the system
  calls \<open>calls\<close>: the diagnostic line on standard error, then the exit with status 1.\<close>

definition fatal_exit :: "world \<Rightarrow> event list \<Rightarrow> string \<Rightarrow> world" where
  "fatal_exit w calls msg =
     w\<lparr>stderr := stderr w @ log_line (now w) False msg,
       trace := trace w @ calls @ [EvStderr (log_line (now w) False msg), EvExit 1]\<rparr>"

text \<open>Two loggers agree on every field but \<open>LogFilePath\<close>.\<close>

definition same_config :: "Twlc \<Rightarrow> Twlc \<Rightarrow> bool" where
  "same_config a b =
     (SaveInLogFile a = SaveInLogFile b \<and> ShowInConsole a = ShowInConsole b \<and>
      ColorMessages a = ColorMessages b \<and> BGColor a = BGColor b \<and> FGColor a = FGColor b \<and>
      WithTime a = WithTime b \<and> LogDir a = LogDir b)"


subsection \<open>Sample inputs\<close>

definition world0 :: world where
  "world0 =
     \<lparr>now = \<lparr>year = 2025, month = 1, day = 1, hour = 12, minute = 30, second = 5\<rparr>,
      executable = Inr ''/opt/app/bin/app'',
      files = Map.empty,
      dirs = {''/var/log/app''},
      stat_err = Map.empty,
      mkdir_err = Map.empty,
      create_err = Map.empty,
      open_err = Map.empty,
      write_err = Map.empty,
      handles = [],
      next_fd = 3,
      stdout = [],
      stderr = [],
      trace = []\<rparr>"

text \<open>The same world with a log directory in which no file can be created.\<close>

definition world_ro :: world where
  "world_ro = world0\<lparr>create_err := [''/var/log/app/twlc_20250101.log'' \<mapsto> ''permission denied'']\<rparr>"

text \<open>The same world with a full disk under the log file, and one in which the directory
  \<^verbatim>\<open>/data/logs\<close> cannot be examined.\<close>

definition world_full :: world where
  "world_full = world0\<lparr>write_err := [''/var/log/app/twlc_20250101.log'' \<mapsto> ''no space left on device'']\<rparr>"

definition world_noperm :: world where
  "world_noperm = world0\<lparr>stat_err := [''/data/logs'' \<mapsto> ''permission denied'']\<rparr>"

text \<open>Worlds in which no directory can be made, and in which no file can be opened.\<close>

definition world_nomkdir :: world where
  "world_nomkdir = world0\<lparr>mkdir_err := (\<lambda>name. Some ''read-only file system'')\<rparr>"

definition world_noopen :: world where
  "world_noopen = world0\<lparr>open_err := (\<lambda>name. Some ''too many open files'')\<rparr>"

text \<open>Worlds in which \<^verbatim>\<open>os.Stat\<close> is refused everywhere, in which the log file exists and
  cannot be opened, and in which the path of the executable cannot be resolved.\<close>

definition world_nostat :: world where
  "world_nostat = world0\<lparr>stat_err := (\<lambda>name. Some ''permission denied'')\<rparr>"

definition world_stale :: world where
  "world_stale = world_noopen\<lparr>files := [''/var/log/app/twlc_20250101.log'' \<mapsto> ''old'']\<rparr>"

definition world_noexe :: world where
  "world_noexe = world0\<lparr>executable := Inl ''readlink /proc/self/exe: permission denied''\<rparr>"




definition plain_logger :: Twlc where
  "plain_logger =
     \<lparr>SaveInLogFile = True, ShowInConsole = True, ColorMessages = False, BGColor = False,
      FGColor = False, WithTime = False, LogDir = ''/var/log/app'', LogFilePath = []\<rparr>"

definition color_logger :: Twlc where
  "color_logger =
     \<lparr>SaveInLogFile = True, ShowInConsole = True, ColorMessages = True, BGColor = True,
      FGColor = True, WithTime = False, LogDir = ''/var/log/app'', LogFilePath = []\<rparr>"

definition console_logger :: Twlc where
  "console_logger =
     \<lparr>SaveInLogFile = False, ShowInConsole = True, ColorMessages = True, BGColor = False,
      FGColor = True, WithTime = False, LogDir = ''/var/log/app'', LogFilePath = []\<rparr>"



section \<open>Properties\<close>

subsection \<open>The outcome of a write\<close>

lemmas os_defs = createLogFile_def os_Stat_def os_Create_def os_OpenFile_def
  log_Fatalf_def log_Printf_def write_stderr_def write_stdout_def emit_def Logger_Printf_def

lemmas os_splits = option.splits stat_result.splits result.splits prod.splits sum.splits if_splits

lemma console_step_plain:
  "ShowInConsole t \<Longrightarrow> \<not> ColorMessages t \<Longrightarrow> \<not> WithTime t \<Longrightarrow>
   console_step t S M w = write_stdout (''['' @ S @ ''] '' @ M @ [LF]) w"
  by (simp add: console_step_def colored_def fmt_Printf_def bracketed_def)

lemma sample_path:
  "filepath_Join ''/var/log/app'' (''twlc_'' @ Format_20060102 (now world0) @ ''.log'') =
   ''/var/log/app/twlc_20250101.log''"
  by (simp add: world0_def filepath_Join_def filepath_Clean_def clean_loop.simps
      Format_20060102_def appendInt_def digits.simps)

lemma WriteLog_outcome:
  "(returned (WriteLog t S M w) \<longleftrightarrow> \<not> file_step_fatal t w) \<and>
   (exited (WriteLog t S M w) \<longleftrightarrow> file_step_fatal t w)"
  by (simp add: WriteLog_def Let_def os_defs file_step_fatal_def not_exist_def log_path_def
      split: os_splits)

lemma returnedE: "returned r \<Longrightarrow> \<exists>x w. r = Returned x w"
  by (cases r) simp_all

lemma sample_log_path:
  "LogDir t = ''/var/log/app'' \<Longrightarrow> log_path t world0 = ''/var/log/app/twlc_20250101.log''"
  using sample_path by (simp add: log_path_def)

lemma sample_not_fatal: "LogDir t = ''/var/log/app'' \<Longrightarrow> \<not> file_step_fatal t world0"
  by (simp add: file_step_fatal_def not_exist_def sample_log_path) (simp add: world0_def)

lemma WriteLog_frame:
  "WriteLog t S M w = Returned t' w' \<Longrightarrow> t' = t\<lparr>LogFilePath := LogFilePath t'\<rparr>"
  by (auto simp add: WriteLog_def Let_def log_Fatalf_def split: os_splits)

lemma WriteLog_no_persist:
  "\<not> SaveInLogFile t \<Longrightarrow> WriteLog t S M w = Returned t (console_step t S M w)"
  by (simp add: WriteLog_def)

lemma WriteLog_same_config: "WriteLog t S M w = Returned t' w' \<Longrightarrow> same_config t' t"
  using WriteLog_frame [of t S M w t' w']
  by (cases t, cases t') (simp add: same_config_def)

lemma write_all_same_config: "write_all t steps w = Returned t' w' \<Longrightarrow> same_config t' t"
proof (induction steps arbitrary: t w)
  case Nil
  then show ?case by (simp add: same_config_def)
next
  case (Cons step steps)
  obtain env S M where step: "step = (env, S, M)" by (cases step)
  from Cons.prems step obtain t1 w1 where
    one: "WriteLog t S M (env w) = Returned t1 w1" and rest: "write_all t1 steps w1 = Returned t' w'"
    by (auto split: result.splits)
  from Cons.IH [OF rest] WriteLog_same_config [OF one] show ?case
    by (simp add: same_config_def)
qed

lemma write_all_no_persist:
  "\<not> SaveInLogFile t \<Longrightarrow> \<exists>w'. write_all t steps w = Returned t w'"
proof (induction steps arbitrary: w)
  case Nil
  then show ?case by simp
next
  case (Cons step steps)
  obtain env S M where step: "step = (env, S, M)" by (cases step)
  show ?case using Cons by (simp add: step WriteLog_no_persist)
qed

lemma filepath_Clean_nonempty: "filepath_Clean p \<noteq> []"
  by (simp add: filepath_Clean_def Let_def)

lemma log_path_nonempty: "log_path t w \<noteq> []"
  by (simp add: log_path_def filepath_Join_def filepath_Clean_nonempty)

lemma WriteLog_persist_path:
  "SaveInLogFile t \<Longrightarrow> WriteLog t S M w = Returned t' w' \<Longrightarrow> LogFilePath t' = log_path t w"
  by (auto simp add: WriteLog_def Let_def log_Fatalf_def log_path_def split: os_splits)

lemma NewTwlc_fields:
  "NewTwlc a b c d e f dir w = Returned t w' \<Longrightarrow>
   LogFilePath t = [] \<and> SaveInLogFile t = a \<and> LogDir t = dir"
  by (auto simp add: NewTwlc_def split: result.splits)

lemma console_step_eq:
  "console_step t S M w =
     w\<lparr>stdout := stdout w @
         (if ShowInConsole t \<and> \<not> WithTime t then console_line t S M (now w) else []),
       stderr := stderr w @
         (if ShowInConsole t \<and> WithTime t then console_line t S M (now w) else []),
       trace := trace w @ console_events t S M (now w)\<rparr>"
  by (cases "colored t S M")
    (simp add: console_step_def console_line_def console_events_def log_Printf_def fmt_Printf_def
      write_stdout_def write_stderr_def emit_def)

lemma colored_path [simp]: "colored (t\<lparr>LogFilePath := p\<rparr>) S M = colored t S M"
  by (simp add: colored_def setColor_def Let_def split: option.splits)

lemma console_line_path [simp]:
  "console_line (t\<lparr>LogFilePath := p\<rparr>) S M tm = console_line t S M tm"
  by (simp add: console_line_def)

lemma console_events_path [simp]:
  "console_events (t\<lparr>LogFilePath := p\<rparr>) S M tm = console_events t S M tm"
  by (simp add: console_events_def)

lemma WriteLog_unfold:
  "WriteLog t S M w =
     (if SaveInLogFile t then
        (case createLogFile (t\<lparr>LogFilePath := log_path t w\<rparr>) w of
           Returned u w1 \<Rightarrow>
             (case os_OpenFile (log_path t w) w1 of
                (Inl err, w2) \<Rightarrow> log_Fatalf (''Failed to open log file: '' @ err) w2
              | (Inr file, w2) \<Rightarrow>
                  Returned (t\<lparr>LogFilePath := log_path t w\<rparr>)
                    (File_Close file (console_step (t\<lparr>LogFilePath := log_path t w\<rparr>) S M
                       (Logger_Printf file (WithTime t) (bracketed S M) w2))))
         | Exited w1 \<Rightarrow> Exited w1
         | Panicked e w1 \<Rightarrow> Panicked e w1)
      else Returned t (console_step t S M w))"
  by (simp add: WriteLog_def Let_def log_path_def
      cong: result.case_cong prod.case_cong sum.case_cong)

lemma createLogFile_cases:
  "createLogFile t w =
     (if not_exist w (LogFilePath t) then
        (case create_err w (LogFilePath t) of
           Some e \<Rightarrow>
             Exited (w\<lparr>stderr := stderr w @ log_line (now w) False (''Failed to create log file: '' @ e),
                       trace := trace w @ [EvStat (LogFilePath t), EvCreate (LogFilePath t) None,
                         EvStderr (log_line (now w) False (''Failed to create log file: '' @ e)),
                         EvExit 1]\<rparr>)
         | None \<Rightarrow>
             Returned () (w\<lparr>files := (files w)(LogFilePath t \<mapsto> []),
                            next_fd := Suc (next_fd w),
                            trace := trace w @ [EvStat (LogFilePath t),
                              EvCreate (LogFilePath t) (Some (next_fd w)), EvClose (next_fd w)]\<rparr>))
      else Returned () (w\<lparr>trace := trace w @ [EvStat (LogFilePath t)]\<rparr>))"
  by (simp add: os_defs not_exist_def split: option.splits)

lemma os_OpenFile_cases:
  "os_OpenFile p w =
     (case open_err w p of
        Some e \<Rightarrow> (Inl e, w\<lparr>trace := trace w @ [EvOpenFile p None]\<rparr>)
      | None \<Rightarrow>
          (Inr (File (next_fd w) p),
           w\<lparr>files := (files w)(p \<mapsto> (case files w p of None \<Rightarrow> [] | Some c \<Rightarrow> c)),
             handles := next_fd w # handles w,
             next_fd := Suc (next_fd w),
             trace := trace w @ [EvOpenFile p (Some (next_fd w))]\<rparr>))"
  by (auto simp add: os_OpenFile_def emit_def fun_upd_idem split: option.splits)

text \<open>The world a persisting write leaves when it returns.\<close>

lemma WriteLog_persist_ok:
  assumes "SaveInLogFile t" and "\<not> file_step_fatal t w"
  shows "WriteLog t S M w =
     Returned (t\<lparr>LogFilePath := log_path t w\<rparr>)
       (w\<lparr>files := (files w)(log_path t w \<mapsto>
                 (case files w (log_path t w) of None \<Rightarrow> [] | Some c \<Rightarrow> c) @
                 (if write_err w (log_path t w) = None
                  then log_line (now w) (WithTime t) (bracketed S M) else [])),
          next_fd := (if not_exist w (log_path t w) then Suc (Suc (next_fd w)) else Suc (next_fd w)),
          stdout := stdout w @
            (if ShowInConsole t \<and> \<not> WithTime t then console_line t S M (now w) else []),
          stderr := stderr w @
            (if ShowInConsole t \<and> WithTime t then console_line t S M (now w) else []),
          trace := trace w @
            (if not_exist w (log_path t w)
             then [EvStat (log_path t w), EvCreate (log_path t w) (Some (next_fd w)),
                   EvClose (next_fd w), EvOpenFile (log_path t w) (Some (Suc (next_fd w))),
                   EvWrite (Suc (next_fd w)) (log_line (now w) (WithTime t) (bracketed S M))] @
                  console_events t S M (now w) @ [EvClose (Suc (next_fd w))]
             else [EvStat (log_path t w), EvOpenFile (log_path t w) (Some (next_fd w)),
                   EvWrite (next_fd w) (log_line (now w) (WithTime t) (bracketed S M))] @
                  console_events t S M (now w) @ [EvClose (next_fd w)])\<rparr>)"
proof (cases "not_exist w (log_path t w)")
  case True
  with assms have c: "create_err w (log_path t w) = None" and o: "open_err w (log_path t w) = None"
    by (auto simp add: file_step_fatal_def)
  from True have f: "files w (log_path t w) = None" by (simp add: not_exist_def)
  show ?thesis
    by (simp add: WriteLog_unfold assms(1) createLogFile_cases True c o f os_OpenFile_cases
        Logger_Printf_def console_step_eq emit_def split: option.splits)
next
  case False
  with assms have o: "open_err w (log_path t w) = None"
    by (auto simp add: file_step_fatal_def)
  show ?thesis
    by (simp add: WriteLog_unfold assms(1) createLogFile_cases False o os_OpenFile_cases
        Logger_Printf_def console_step_eq emit_def split: option.splits)
qed

text \<open>The worlds in which a persisting write ends the process.\<close>

lemma WriteLog_create_fatal:
  assumes "SaveInLogFile t" and "not_exist w (log_path t w)" and "create_err w (log_path t w) = Some e"
  shows "WriteLog t S M w =
     Exited (w\<lparr>stderr := stderr w @ log_line (now w) False (''Failed to create log file: '' @ e),
               trace := trace w @ [EvStat (log_path t w), EvCreate (log_path t w) None,
                 EvStderr (log_line (now w) False (''Failed to create log file: '' @ e)),
                 EvExit 1]\<rparr>)"
  by (simp add: WriteLog_unfold assms createLogFile_cases)

lemma WriteLog_open_fatal:
  assumes "SaveInLogFile t" and "open_err w (log_path t w) = Some e"
    and "\<not> (not_exist w (log_path t w) \<and> create_err w (log_path t w) \<noteq> None)"
  shows "WriteLog t S M w =
     Exited (w\<lparr>files := (if not_exist w (log_path t w) then (files w)(log_path t w \<mapsto> []) else files w),
               next_fd := (if not_exist w (log_path t w) then Suc (next_fd w) else next_fd w),
               stderr := stderr w @ log_line (now w) False (''Failed to open log file: '' @ e),
               trace := trace w @
                 (if not_exist w (log_path t w)
                  then [EvStat (log_path t w), EvCreate (log_path t w) (Some (next_fd w)),
                        EvClose (next_fd w)]
                  else [EvStat (log_path t w)]) @
                 [EvOpenFile (log_path t w) None,
                  EvStderr (log_line (now w) False (''Failed to open log file: '' @ e)),
                  EvExit 1]\<rparr>)"
proof (cases "not_exist w (log_path t w)")
  case True
  with assms(3) have c: "create_err w (log_path t w) = None" by simp
  show ?thesis
    by (simp add: WriteLog_unfold assms(1,2) createLogFile_cases True c os_OpenFile_cases
        log_Fatalf_def log_Printf_def write_stderr_def emit_def)
next
  case False
  show ?thesis
    by (simp add: WriteLog_unfold assms(1,2) createLogFile_cases False os_OpenFile_cases
        log_Fatalf_def log_Printf_def write_stderr_def emit_def)
qed

lemma WriteLog_handles: "handles (world_of (WriteLog t S M w)) = handles w"
proof (cases "SaveInLogFile t")
  case False
  then show ?thesis by (simp add: WriteLog_no_persist console_step_eq)
next
  case True
  show ?thesis
  proof (cases "file_step_fatal t w")
    case False
    then show ?thesis by (simp add: WriteLog_persist_ok [OF True False])
  next
    case fatal: True
    show ?thesis
    proof (cases "not_exist w (log_path t w) \<and> create_err w (log_path t w) \<noteq> None")
      case True
      then obtain e where "create_err w (log_path t w) = Some e" by auto
      with True \<open>SaveInLogFile t\<close> show ?thesis by (simp add: WriteLog_create_fatal)
    next
      case False
      with fatal obtain e where "open_err w (log_path t w) = Some e"
        by (auto simp add: file_step_fatal_def)
      with False \<open>SaveInLogFile t\<close> show ?thesis by (simp add: WriteLog_open_fatal)
    qed
  qed
qed

lemma WriteLog_balanced: "foldl open_after [] (new_events w (WriteLog t S M w)) = []"
proof (cases "SaveInLogFile t")
  case False
  then show ?thesis
    by (simp add: WriteLog_no_persist console_step_eq new_events_def console_events_def)
next
  case True
  show ?thesis
  proof (cases "file_step_fatal t w")
    case False
    then show ?thesis
      by (simp add: WriteLog_persist_ok [OF True False] new_events_def console_events_def)
  next
    case fatal: True
    show ?thesis
    proof (cases "not_exist w (log_path t w) \<and> create_err w (log_path t w) \<noteq> None")
      case True
      then obtain e where "create_err w (log_path t w) = Some e" by auto
      with True \<open>SaveInLogFile t\<close> show ?thesis by (simp add: WriteLog_create_fatal new_events_def)
    next
      case False
      with fatal obtain e where "open_err w (log_path t w) = Some e"
        by (auto simp add: file_step_fatal_def)
      with False \<open>SaveInLogFile t\<close> show ?thesis by (simp add: WriteLog_open_fatal new_events_def)
    qed
  qed
qed

lemma WriteLog_sinks:
  assumes "\<not> file_step_fatal t w"
  shows "console_writes (new_events w (WriteLog t S M w)) =
           (if ShowInConsole t then [console_line t S M (now w)] else [])"
    and "file_writes (new_events w (WriteLog t S M w)) =
           (if SaveInLogFile t then [log_line (now w) (WithTime t) (bracketed S M)] else [])"
proof -
  show "console_writes (new_events w (WriteLog t S M w)) =
           (if ShowInConsole t then [console_line t S M (now w)] else [])"
  proof (cases "SaveInLogFile t")
    case True
    then show ?thesis
      by (simp add: WriteLog_persist_ok [OF True assms] new_events_def console_events_def
          console_writes_def List.map_filter_simps)
  next
    case False
    then show ?thesis
      by (simp add: WriteLog_no_persist console_step_eq new_events_def console_events_def
          console_writes_def List.map_filter_simps)
  qed
  show "file_writes (new_events w (WriteLog t S M w)) =
           (if SaveInLogFile t then [log_line (now w) (WithTime t) (bracketed S M)] else [])"
  proof (cases "SaveInLogFile t")
    case True
    then show ?thesis
      by (simp add: WriteLog_persist_ok [OF True assms] new_events_def console_events_def
          file_writes_def List.map_filter_simps)
  next
    case False
    then show ?thesis
      by (simp add: WriteLog_no_persist console_step_eq new_events_def console_events_def
          file_writes_def List.map_filter_simps)
  qed
qed

lemma log_path_now: "now w' = now w \<Longrightarrow> log_path t w' = log_path t w"
  by (simp add: log_path_def)

lemma sample_header: "LstdFlags_header (now world0) = ''2025/01/01 12:30:05 ''"
  by (simp add: world0_def LstdFlags_header_def appendInt_def digits.simps)

lemma createLogDir_cases:
  "createLogDir dir w =
     (if not_exist w dir then
        (case mkdir_err w dir of
           Some e \<Rightarrow>
             Exited (fatal_exit w [EvStat dir, EvMkdirAll dir]
                       (''Failed to create log directory: '' @ e))
         | None \<Rightarrow>
             Returned () (w\<lparr>dirs := insert dir (dirs w),
                            trace := trace w @ [EvStat dir, EvMkdirAll dir]\<rparr>))
      else Returned () (w\<lparr>trace := trace w @ [EvStat dir]\<rparr>))"
  by (simp add: createLogDir_def os_Stat_def os_MkdirAll_def log_Fatalf_def log_Printf_def
      write_stderr_def emit_def not_exist_def fatal_exit_def split: option.splits)

lemma sample_color_line:
  "log_line (now world0) False (bracketed Error ''disk full'') =
   ''2025/01/01 12:30:05 [ERROR] disk full'' @ [LF]"
  by (simp add: log_line_def sample_header bracketed_def Error_def LF_def)

lemma sample_color_console:
  "console_line color_logger Error ''disk full'' tm =
   ''['' @ ESC # ''[31mERROR'' @ ESC # ''[0m] '' @ ESC # ''[31mdisk full'' @ ESC # ''[0m'' @ [LF]"
  by (simp add: console_line_def color_logger_def colored_def setColor_def colorMap_def
      Info_def Success_def Warning_def Error_def bracketed_def reset_seq_def)

lemma color_logger_fields:
  "SaveInLogFile color_logger" "ShowInConsole color_logger" "ColorMessages color_logger"
  "\<not> WithTime color_logger" "LogDir color_logger = ''/var/log/app''"
  by (simp_all add: color_logger_def)

lemma sample_events:
  "new_events world0 (WriteLog color_logger Error ''disk full'' world0) =
     [EvStat ''/var/log/app/twlc_20250101.log'',
      EvCreate ''/var/log/app/twlc_20250101.log'' (Some 3),
      EvClose 3,
      EvOpenFile ''/var/log/app/twlc_20250101.log'' (Some 4),
      EvWrite 4 (''2025/01/01 12:30:05 [ERROR] disk full'' @ [LF]),
      EvStdout (''['' @ ESC # ''[31mERROR'' @ ESC # ''[0m] '' @ ESC # ''[31mdisk full'' @ ESC # ''[0m'' @ [LF]),
      EvClose 4]"
proof -
  have nf: "\<not> file_step_fatal color_logger world0"
    by (rule sample_not_fatal) (rule color_logger_fields)
  have p: "log_path color_logger world0 = ''/var/log/app/twlc_20250101.log''"
    by (rule sample_log_path) (rule color_logger_fields)
  have ne: "not_exist world0 ''/var/log/app/twlc_20250101.log''"
    by (simp add: not_exist_def world0_def)
  have fd: "next_fd world0 = 3" by (simp add: world0_def)
  show ?thesis
    using sample_color_console [of "now world0"] sample_color_line
    by (simp add: WriteLog_persist_ok [OF color_logger_fields(1) nf] new_events_def p ne fd
        console_events_def color_logger_fields)
qed

lemma NewTwlc_cases:
  "NewTwlc a b c d e f dir w =
     (case createLogDir dir w of
        Returned u w1 \<Rightarrow>
          Returned \<lparr>SaveInLogFile = a, ShowInConsole = b, ColorMessages = c, BGColor = d,
                    FGColor = e, WithTime = f, LogDir = dir, LogFilePath = []\<rparr> w1
      | Exited w1 \<Rightarrow> Exited w1
      | Panicked x w1 \<Rightarrow> Panicked x w1)"
  by (simp add: NewTwlc_def)

lemma plain_logger_fields:
  "SaveInLogFile plain_logger" "ShowInConsole plain_logger" "\<not> ColorMessages plain_logger"
  "\<not> WithTime plain_logger" "LogDir plain_logger = ''/var/log/app''"
  by (simp_all add: plain_logger_def)

lemma sample_dir: "filepath_Dir ''/opt/app/bin/app'' @ ''/logs/'' = ''/opt/app/bin/logs/''"
  by (simp add: filepath_Dir_def filepath_Clean_def clean_loop.simps)

subsection \<open>Decimal numerals and the date\<close>
















subsection \<open>Cleaning and joining paths\<close>





















subsection \<open>What a persisting write leaves behind\<close>

lemma returned_not_fatal: "WriteLog t S M w = Returned t' w' \<Longrightarrow> \<not> file_step_fatal t w"
  using WriteLog_outcome [of t S M w] by simp

lemma WriteLog_persist_result:
  assumes "SaveInLogFile t" and "WriteLog t S M w = Returned t' w'"
  shows "t' = t\<lparr>LogFilePath := log_path t w\<rparr>"
    and "files w' = (files w)(log_path t w \<mapsto>
           (case files w (log_path t w) of None \<Rightarrow> [] | Some c \<Rightarrow> c) @
           (if write_err w (log_path t w) = None
            then log_line (now w) (WithTime t) (bracketed S M) else []))"
    and "write_err w' = write_err w"
    and "open_err w' = open_err w \<and> create_err w' = create_err w \<and> stat_err w' = stat_err w \<and>
         dirs w' = dirs w \<and> now w' = now w"
proof -
  have nf: "\<not> file_step_fatal t w" by (rule returned_not_fatal [OF assms(2)])
  note ok = WriteLog_persist_ok [OF assms(1) nf, of S M]
  from ok assms(2) show "t' = t\<lparr>LogFilePath := log_path t w\<rparr>" by simp
  from ok assms(2) have w': "w' = world_of (WriteLog t S M w)" by simp
  show "files w' = (files w)(log_path t w \<mapsto>
           (case files w (log_path t w) of None \<Rightarrow> [] | Some c \<Rightarrow> c) @
           (if write_err w (log_path t w) = None
            then log_line (now w) (WithTime t) (bracketed S M) else []))"
    unfolding w' ok by simp
  show "write_err w' = write_err w" unfolding w' ok by simp
  show "open_err w' = open_err w \<and> create_err w' = create_err w \<and> stat_err w' = stat_err w \<and>
        dirs w' = dirs w \<and> now w' = now w"
    unfolding w' ok by simp
qed



lemma sample_second_write:
  assumes "WriteLog plain_logger S M world0 = Returned t1 w1"
  shows "returned (WriteLog t1 S' M' (w1\<lparr>now := tm\<rparr>))"
proof -
  note r = WriteLog_persist_result [OF plain_logger_fields(1) assms]
  have "open_err (w1\<lparr>now := tm\<rparr>) = Map.empty" "create_err (w1\<lparr>now := tm\<rparr>) = Map.empty"
    using r(4) by (simp_all add: world0_def)
  then have "\<not> file_step_fatal t1 (w1\<lparr>now := tm\<rparr>)"
    by (simp add: file_step_fatal_def)
  then show ?thesis using WriteLog_outcome by blast
qed

subsection \<open>Two writes in a row\<close>







lemma sample_clean: "filepath_Clean ''/var/log/app'' = ''/var/log/app''"
  by (simp add: filepath_Clean_def clean_loop.simps)

subsection \<open>Failures of the file step, one by one\<close>

lemma DefaultTwlc_cases:
  "DefaultTwlc w =
     (case executable w of
        Inl err \<Rightarrow> Panicked err (w\<lparr>trace := trace w @ [EvPanic err]\<rparr>)
      | Inr exe \<Rightarrow>
          (case createLogDir (filepath_Dir exe @ ''/logs/'') w of
             Returned u w1 \<Rightarrow>
               Returned \<lparr>SaveInLogFile = True, ShowInConsole = True, ColorMessages = True,
                         BGColor = True, FGColor = True, WithTime = True,
                         LogDir = filepath_Dir exe @ ''/logs/'', LogFilePath = []\<rparr> w1
           | Exited w1 \<Rightarrow> Exited w1
           | Panicked e w1 \<Rightarrow> Panicked e w1))"
  by (cases "executable w") (simp_all add: DefaultTwlc_def Let_def emit_def)

lemma WriteLog_open_fatal_exit:
  assumes "SaveInLogFile t" and "open_err w (log_path t w) = Some e"
  shows "\<not> not_exist w (log_path t w) \<Longrightarrow>
           WriteLog t S M w =
             Exited (fatal_exit w [EvStat (log_path t w), EvOpenFile (log_path t w) None]
                       (''Failed to open log file: '' @ e))"
    and "not_exist w (log_path t w) \<Longrightarrow> create_err w (log_path t w) = None \<Longrightarrow>
           WriteLog t S M w =
             Exited (fatal_exit (w\<lparr>files := (files w)(log_path t w \<mapsto> []), next_fd := Suc (next_fd w)\<rparr>)
                       [EvStat (log_path t w), EvCreate (log_path t w) (Some (next_fd w)),
                        EvClose (next_fd w), EvOpenFile (log_path t w) None]
                       (''Failed to open log file: '' @ e))"
proof -
  show "WriteLog t S M w =
             Exited (fatal_exit w [EvStat (log_path t w), EvOpenFile (log_path t w) None]
                       (''Failed to open log file: '' @ e))"
    if "\<not> not_exist w (log_path t w)"
    using that by (simp add: WriteLog_open_fatal [OF assms] fatal_exit_def)
  show "WriteLog t S M w =
             Exited (fatal_exit (w\<lparr>files := (files w)(log_path t w \<mapsto> []), next_fd := Suc (next_fd w)\<rparr>)
                       [EvStat (log_path t w), EvCreate (log_path t w) (Some (next_fd w)),
                        EvClose (next_fd w), EvOpenFile (log_path t w) None]
                       (''Failed to open log file: '' @ e))"
    if "not_exist w (log_path t w)" "create_err w (log_path t w) = None"
    using that by (simp add: WriteLog_open_fatal [OF assms] fatal_exit_def)
qed

lemma WriteLog_stat_dropped:
  assumes "SaveInLogFile t" and "stat_err w (log_path t w) = Some e" and "open_err w (log_path t w) = None"
  shows "returned (WriteLog t S M w)"
    and "new_events w (WriteLog t S M w) =
           [EvStat (log_path t w), EvOpenFile (log_path t w) (Some (next_fd w)),
            EvWrite (next_fd w) (log_line (now w) (WithTime t) (bracketed S M))] @
           console_events t S M (now w) @ [EvClose (next_fd w)]"
    and "stderr (world_of (WriteLog t S M w)) =
           stderr w @ (if ShowInConsole t \<and> WithTime t then console_line t S M (now w) else [])"
proof -
  from assms(2) have ne: "\<not> not_exist w (log_path t w)" by (simp add: not_exist_def)
  with assms(3) have nf: "\<not> file_step_fatal t w" by (simp add: file_step_fatal_def)
  show "returned (WriteLog t S M w)" by (simp add: WriteLog_persist_ok [OF assms(1) nf])
  show "new_events w (WriteLog t S M w) =
           [EvStat (log_path t w), EvOpenFile (log_path t w) (Some (next_fd w)),
            EvWrite (next_fd w) (log_line (now w) (WithTime t) (bracketed S M))] @
           console_events t S M (now w) @ [EvClose (next_fd w)]"
    by (simp add: WriteLog_persist_ok [OF assms(1) nf] ne new_events_def)
  show "stderr (world_of (WriteLog t S M w)) =
           stderr w @ (if ShowInConsole t \<and> WithTime t then console_line t S M (now w) else [])"
    by (simp add: WriteLog_persist_ok [OF assms(1) nf])
qed

subsection \<open>C1: the plain console line\<close>

text \<open>
  Claim C1, as amended. On a logger with console output enabled and colouring and timestamps
  disabled, \<open>WriteLog S M\<close> returns exactly when the file step does not end the process
  (always, when persistence is disabled); when it returns, standard output has grown by
  exactly \<open>[S] M\<close> and one line feed, and standard error is untouched (no escape
  sequence, no timestamp). When persistence is enabled and the missing log file cannot be
  created, or the log file cannot be opened, the process exits in the file step and nothing
  reaches standard output.
\<close>

theorem C1_console_line:
  assumes "ShowInConsole t" and "\<not> ColorMessages t" and "\<not> WithTime t"
  shows "(returned (WriteLog t S M w) \<longleftrightarrow> \<not> file_step_fatal t w) \<and>
         (exited (WriteLog t S M w) \<longleftrightarrow> file_step_fatal t w) \<and>
         (\<not> SaveInLogFile t \<longrightarrow> \<not> file_step_fatal t w) \<and>
         (\<not> file_step_fatal t w \<longrightarrow>
            stdout (world_of (WriteLog t S M w)) = stdout w @ ''['' @ S @ ''] '' @ M @ [LF] \<and>
            stderr (world_of (WriteLog t S M w)) = stderr w) \<and>
         (file_step_fatal t w \<longrightarrow> stdout (world_of (WriteLog t S M w)) = stdout w)"
  using assms
  by (simp add: WriteLog_def console_step_plain Let_def os_defs file_step_fatal_def
      not_exist_def log_path_def split: os_splits)

theorem C1_console_line_witness:
  "ShowInConsole plain_logger \<and> \<not> ColorMessages plain_logger \<and> \<not> WithTime plain_logger \<and>
   \<not> file_step_fatal plain_logger world0 \<and>
   returned (WriteLog plain_logger Info ''started'' world0) \<and>
   stdout (world_of (WriteLog plain_logger Info ''started'' world0)) = ''[INFO] started'' @ [LF] \<and>
   file_step_fatal plain_logger world_ro \<and>
   exited (WriteLog plain_logger Info ''started'' world_ro)"
proof -
  have f: "ShowInConsole plain_logger" "\<not> ColorMessages plain_logger" "\<not> WithTime plain_logger"
    by (simp_all add: plain_logger_def)
  have p: "log_path plain_logger world0 = ''/var/log/app/twlc_20250101.log''"
    using sample_path by (simp add: log_path_def plain_logger_def)
  have p': "log_path plain_logger world_ro = ''/var/log/app/twlc_20250101.log''"
    using sample_path by (simp add: log_path_def plain_logger_def world_ro_def world0_def)
  have a: "\<not> file_step_fatal plain_logger world0"
    by (simp add: file_step_fatal_def not_exist_def p) (simp add: world0_def)
  have b: "file_step_fatal plain_logger world_ro"
    by (simp add: file_step_fatal_def not_exist_def p')
      (simp add: world_ro_def world0_def plain_logger_def)
  have s: "stdout world0 = []" by (simp add: world0_def)
  show ?thesis
    using f a b s C1_console_line [OF f, of Info "''started''" world0]
      C1_console_line [OF f, of Info "''started''" world_ro]
    by (simp add: Info_def)
qed

text \<open>The claim as stated fails: with persistence enabled and a log file that cannot be
  created, the write ends the process before the console step and prints no line.\<close>

theorem C1_counterexample:
  "ShowInConsole plain_logger \<and> \<not> ColorMessages plain_logger \<and> \<not> WithTime plain_logger \<and>
   stdout (world_of (WriteLog plain_logger Info ''started'' world_ro)) \<noteq>
     stdout world_ro @ ''[INFO] started'' @ [LF]"
  apply (simp add: plain_logger_def WriteLog_def Let_def world_ro_def world0_def)
  apply (simp add: sample_path [simplified world0_def, simplified])
  apply (simp add: os_defs)
  done

subsection \<open>C2: colouring\<close>

text \<open>
  Claim C2. For a severity \<open>S\<close> with the entry \<open>c\<close> in the colour table, \<open>setColor\<close> turns
  the message into \<open>c M reset\<close> exactly when the foreground mode is on and the tag into
  \<open>c S reset\<close> exactly when the background mode is on, each independently of the other (so
  both may apply in one call); for a severity without an entry the tag and the message come
  back unchanged. The table maps the six severities to blue, green, yellow, red, magenta and
  cyan. A logger with colouring and foreground mode on, background mode, timestamps and
  persistence off and the console on prints, for \<open>error("disk full")\<close>, exactly
  \<open>[ERROR] ESC[31mdisk fullESC[0m\<close> and a line feed on standard output, and returns.
\<close>

theorem C2_colorization:
  "(colorMap S = Some c \<longrightarrow>
      snd (setColor t S M) = (if FGColor t then c @ M @ ESC # ''[0m'' else M) \<and>
      fst (setColor t S M) = (if BGColor t then c @ S @ ESC # ''[0m'' else S)) \<and>
   (colorMap S = None \<longrightarrow> setColor t S M = (S, M)) \<and>
   colorMap Info = Some (ESC # ''[34m'') \<and> colorMap Success = Some (ESC # ''[32m'') \<and>
   colorMap Warning = Some (ESC # ''[33m'') \<and> colorMap Error = Some (ESC # ''[31m'') \<and>
   colorMap Debug = Some (ESC # ''[35m'') \<and> colorMap Trace = Some (ESC # ''[36m'') \<and>
   (\<not> SaveInLogFile t \<and> ShowInConsole t \<and> ColorMessages t \<and> FGColor t \<and> \<not> BGColor t \<and>
    \<not> WithTime t \<longrightarrow>
      Twlc_Error t ''disk full'' w =
        Returned t (write_stdout (''[ERROR] '' @ ESC # ''[31mdisk full'' @ ESC # ''[0m'' @ [LF]) w))"
  by (simp add: setColor_def reset_seq_def colorMap_def Info_def Success_def Warning_def
      Error_def Debug_def Trace_def Twlc_Error_def WriteLog_def console_step_def colored_def
      fmt_Printf_def bracketed_def)

theorem C2_colorization_witness:
  "colorMap Error = Some (ESC # ''[31m'') \<and>
   setColor color_logger Error ''disk full'' =
     (ESC # ''[31mERROR'' @ ESC # ''[0m'', ESC # ''[31mdisk full'' @ ESC # ''[0m'') \<and>
   colorMap ''FATAL'' = None \<and>
   setColor color_logger ''FATAL'' ''disk full'' = (''FATAL'', ''disk full'') \<and>
   stdout (world_of (Twlc_Error console_logger ''disk full'' world0)) =
     ''[ERROR] '' @ ESC # ''[31mdisk full'' @ ESC # ''[0m'' @ [LF]"
proof -
  have n: "colorMap ''FATAL'' = None"
    by (simp add: colorMap_def Info_def Success_def Warning_def Error_def Debug_def Trace_def)
  have e: "Error = ''ERROR''" by (simp add: Error_def)
  have fl: "FGColor color_logger" "BGColor color_logger" by (simp_all add: color_logger_def)
  have cl: "\<not> SaveInLogFile console_logger \<and> ShowInConsole console_logger \<and>
            ColorMessages console_logger \<and> FGColor console_logger \<and> \<not> BGColor console_logger \<and>
            \<not> WithTime console_logger"
    by (simp add: console_logger_def)
  have s: "stdout world0 = []" by (simp add: world0_def)
  show ?thesis
    using n fl cl s
      C2_colorization [where S = Error and c = "ESC # ''[31m''" and t = color_logger
        and M = "''disk full''"]
      C2_colorization [where S = "''FATAL''" and t = color_logger and M = "''disk full''"]
      C2_colorization [where t = console_logger and w = world0]
    by (cases "setColor color_logger Error ''disk full''")
      (simp add: e write_stdout_def emit_def)
qed

subsection \<open>C3: the dated log file\<close>




subsection \<open>C4: what each sink receives\<close>

text \<open>
  Claim C4, as amended. In a write that returns, the console (when enabled) receives exactly
  one text: the bracketed form of the tag and message after the colouring step, which is
  \<open>setColor\<close> applied once when colouring is enabled and the identity otherwise. The file
  (when enabled) receives exactly one line, built from the tag and message as they were
  passed: the file step runs before the colouring step, so the file never receives the
  coloured copy. With colouring disabled both sinks receive the tag and message unmodified.
\<close>

theorem C4_sink_copies:
  assumes "\<not> file_step_fatal t w"
  shows "console_writes (new_events w (WriteLog t S M w)) =
           (if ShowInConsole t then
              [if WithTime t
               then log_line (now w) False (bracketed (fst (colored t S M)) (snd (colored t S M)))
               else bracketed (fst (colored t S M)) (snd (colored t S M)) @ [LF]]
            else []) \<and>
         file_writes (new_events w (WriteLog t S M w)) =
           (if SaveInLogFile t then [log_line (now w) (WithTime t) (bracketed S M)] else []) \<and>
         colored t S M = (if ColorMessages t then setColor t S M else (S, M))"
  using WriteLog_sinks [OF assms, of S M]
  by (simp add: console_line_def colored_def)

theorem C4_sink_copies_witness:
  "\<not> file_step_fatal color_logger world0 \<and>
   console_writes (new_events world0 (WriteLog color_logger Error ''disk full'' world0)) =
     [''['' @ ESC # ''[31mERROR'' @ ESC # ''[0m] '' @ ESC # ''[31mdisk full'' @ ESC # ''[0m'' @ [LF]] \<and>
   file_writes (new_events world0 (WriteLog color_logger Error ''disk full'' world0)) =
     [''2025/01/01 12:30:05 [ERROR] disk full'' @ [LF]]"
proof -
  have nf: "\<not> file_step_fatal color_logger world0"
    by (rule sample_not_fatal) (rule color_logger_fields)
  show ?thesis
    using nf C4_sink_copies [OF nf, of Error "''disk full''"] 
      sample_color_console [of "now world0"] sample_color_line
    by (simp add: color_logger_fields console_line_def)
qed

text \<open>The claim as stated fails: with colouring and persistence enabled the console
  receives the escape sequences and the file receives none.\<close>

theorem C4_counterexample:
  "SaveInLogFile color_logger \<and> ColorMessages color_logger \<and>
   file_writes (new_events world0 (WriteLog color_logger Error ''disk full'' world0)) =
     [''2025/01/01 12:30:05 [ERROR] disk full'' @ [LF]] \<and>
   console_writes (new_events world0 (WriteLog color_logger Error ''disk full'' world0)) =
     [''['' @ ESC # ''[31mERROR'' @ ESC # ''[0m] '' @ ESC # ''[31mdisk full'' @ ESC # ''[0m'' @ [LF]] \<and>
   ESC \<notin> set (concat (file_writes (new_events world0 (WriteLog color_logger Error ''disk full'' world0))))"
proof -
  have nf: "\<not> file_step_fatal color_logger world0"
    by (rule sample_not_fatal) (rule color_logger_fields)
  show ?thesis
    using WriteLog_sinks [OF nf, of Error "''disk full''"]
      sample_color_console [of "now world0"] sample_color_line
    by (simp add: color_logger_fields ESC_def LF_def)
qed

subsection \<open>C5: the scope of the file handle\<close>

text \<open>
  Claim C5, as amended. Every write leaves the set of open descriptors as it found it, on
  every way out, and every descriptor opened during the call is closed during the call: no
  handle outlives the call (and the logger record has no field that could hold one). The
  process exits in the file step only when the creation or the opening has failed, when no
  descriptor of the call is open, and nothing has been written to the file. In a persisting
  write that returns, the log file is opened, written, then the console step runs, and the
  close is the last event of the call: the deferred close runs at the return of
  \<open>WriteLog\<close>, after the colouring and console steps, so with the console enabled the
  console write happens while the file is still open.
\<close>

theorem C5_handle_scope:
  "handles (world_of (WriteLog t S M w)) = handles w \<and>
   foldl open_after [] (new_events w (WriteLog t S M w)) = [] \<and>
   (SaveInLogFile t \<and> \<not> file_step_fatal t w \<longrightarrow>
      (\<exists>fd pre. new_events w (WriteLog t S M w) =
         pre @ [EvOpenFile (log_path t w) (Some fd),
                EvWrite fd (log_line (now w) (WithTime t) (bracketed S M))] @
         console_events t S M (now w) @ [EvClose fd]) \<and>
      (ShowInConsole t \<longrightarrow> prints_while_open [] (new_events w (WriteLog t S M w)))) \<and>
   (file_step_fatal t w \<longrightarrow>
      exited (WriteLog t S M w) \<and> file_writes (new_events w (WriteLog t S M w)) = [])"
proof -
  have shape: "\<exists>fd pre. new_events w (WriteLog t S M w) =
         pre @ [EvOpenFile (log_path t w) (Some fd),
                EvWrite fd (log_line (now w) (WithTime t) (bracketed S M))] @
         console_events t S M (now w) @ [EvClose fd]"
    if a: "SaveInLogFile t" "\<not> file_step_fatal t w"
  proof (cases "not_exist w (log_path t w)")
    case True
    have "new_events w (WriteLog t S M w) =
         [EvStat (log_path t w), EvCreate (log_path t w) (Some (next_fd w)), EvClose (next_fd w)] @
         [EvOpenFile (log_path t w) (Some (Suc (next_fd w))),
          EvWrite (Suc (next_fd w)) (log_line (now w) (WithTime t) (bracketed S M))] @
         console_events t S M (now w) @ [EvClose (Suc (next_fd w))]"
      by (simp add: WriteLog_persist_ok [OF a] new_events_def True)
    then show ?thesis by blast
  next
    case False
    have "new_events w (WriteLog t S M w) =
         [EvStat (log_path t w)] @
         [EvOpenFile (log_path t w) (Some (next_fd w)),
          EvWrite (next_fd w) (log_line (now w) (WithTime t) (bracketed S M))] @
         console_events t S M (now w) @ [EvClose (next_fd w)]"
      by (simp add: WriteLog_persist_ok [OF a] new_events_def False)
    then show ?thesis by blast
  qed
  have open_print: "prints_while_open [] (new_events w (WriteLog t S M w))"
    if a: "SaveInLogFile t" "\<not> file_step_fatal t w" and c: "ShowInConsole t"
    by (simp add: WriteLog_persist_ok [OF a] new_events_def console_events_def c)
  have fatal: "file_writes (new_events w (WriteLog t S M w)) = []" if f: "file_step_fatal t w"
  proof (cases "not_exist w (log_path t w) \<and> create_err w (log_path t w) \<noteq> None")
    case True
    then obtain e where "create_err w (log_path t w) = Some e" by auto
    with True f show ?thesis
      by (simp add: WriteLog_create_fatal file_step_fatal_def new_events_def file_writes_def
          List.map_filter_simps)
  next
    case False
    with f obtain e where "open_err w (log_path t w) = Some e"
      by (auto simp add: file_step_fatal_def)
    with False f show ?thesis
      by (simp add: WriteLog_open_fatal file_step_fatal_def new_events_def file_writes_def
          List.map_filter_simps)
  qed
  show ?thesis
    using WriteLog_handles [of t S M w] WriteLog_balanced [of w t S M] shape open_print fatal
      WriteLog_outcome [of t S M w]
    by blast
qed

theorem C5_handle_scope_witness:
  "SaveInLogFile color_logger \<and> \<not> file_step_fatal color_logger world0 \<and>
   handles (world_of (WriteLog color_logger Error ''disk full'' world0)) = [] \<and>
   foldl open_after [] (new_events world0 (WriteLog color_logger Error ''disk full'' world0)) = [] \<and>
   last (new_events world0 (WriteLog color_logger Error ''disk full'' world0)) = EvClose 4 \<and>
   file_step_fatal color_logger world_ro \<and>
   exited (WriteLog color_logger Error ''disk full'' world_ro) \<and>
   handles (world_of (WriteLog color_logger Error ''disk full'' world_ro)) = []"
proof -
  have nf: "\<not> file_step_fatal color_logger world0"
    by (rule sample_not_fatal) (rule color_logger_fields)
  have p: "log_path color_logger world_ro = ''/var/log/app/twlc_20250101.log''"
    using sample_log_path [OF color_logger_fields(5)] log_path_now [of world_ro world0 color_logger]
    by (simp add: world_ro_def)
  have f: "file_step_fatal color_logger world_ro"
    by (simp add: file_step_fatal_def not_exist_def p color_logger_fields)
      (simp add: world_ro_def world0_def)
  have h: "handles world0 = []" "handles world_ro = []" by (simp_all add: world_ro_def world0_def)
  show ?thesis
    using nf f h color_logger_fields(1)
      C5_handle_scope [of color_logger Error "''disk full''" world0]
      C5_handle_scope [of color_logger Error "''disk full''" world_ro]
    by (simp add: sample_events)
qed

text \<open>The claim as stated fails: the handle is not released before the console step. In
  this run the write to standard output comes between the opening of descriptor 4 and its
  close.\<close>

theorem C5_counterexample:
  "SaveInLogFile color_logger \<and> ShowInConsole color_logger \<and>
   new_events world0 (WriteLog color_logger Error ''disk full'' world0) =
     [EvStat ''/var/log/app/twlc_20250101.log'',
      EvCreate ''/var/log/app/twlc_20250101.log'' (Some 3),
      EvClose 3,
      EvOpenFile ''/var/log/app/twlc_20250101.log'' (Some 4),
      EvWrite 4 (''2025/01/01 12:30:05 [ERROR] disk full'' @ [LF]),
      EvStdout (''['' @ ESC # ''[31mERROR'' @ ESC # ''[0m] '' @ ESC # ''[31mdisk full'' @ ESC # ''[0m'' @ [LF]),
      EvClose 4] \<and>
   prints_while_open [] (new_events world0 (WriteLog color_logger Error ''disk full'' world0))"
  by (simp add: sample_events color_logger_fields)

subsection \<open>C6: which failures end the process\<close>

text \<open>
  Claim C6, as amended. When the log directory is missing and cannot be made, \<open>createLogDir\<close>
  and with it both constructors end the process: after the one \<^verbatim>\<open>Stat\<close> and the one failed
  \<^verbatim>\<open>MkdirAll\<close> nothing happens but the diagnostic line on standard error and the exit with
  status 1. In a persisting write the same holds when the missing log file cannot be created,
  and when the log file cannot be opened: the whole run of system calls is the \<^verbatim>\<open>Stat\<close>, the
  creation of the file when it was missing, one failed \<^verbatim>\<open>OpenFile\<close>, the diagnostic and the
  exit, so nothing is tried twice. \<open>DefaultTwlc\<close> panics when the path of the executable cannot
  be resolved. Other errors are dropped by the code: an error of \<^verbatim>\<open>os.Stat\<close> other than "does not
  exist" makes \<open>createLogDir\<close>, both constructors and \<open>createLogFile\<close> return without creating
  anything and without a diagnostic, a persisting write then goes on to open the file; and a
  failed write to the log file lets the write return with the file's contents unchanged and
  without a diagnostic.
\<close>

theorem C6_fatal_errors:
  "(not_exist w dir \<and> mkdir_err w dir = Some err \<longrightarrow>
      createLogDir dir w =
        Exited (fatal_exit w [EvStat dir, EvMkdirAll dir] (''Failed to create log directory: '' @ err)) \<and>
      NewTwlc a b c d e f dir w =
        Exited (fatal_exit w [EvStat dir, EvMkdirAll dir] (''Failed to create log directory: '' @ err))) \<and>
   (executable w = Inr exe \<and> not_exist w (filepath_Dir exe @ ''/logs/'') \<and>
    mkdir_err w (filepath_Dir exe @ ''/logs/'') = Some err \<longrightarrow>
      DefaultTwlc w =
        Exited (fatal_exit w [EvStat (filepath_Dir exe @ ''/logs/''), EvMkdirAll (filepath_Dir exe @ ''/logs/'')]
                  (''Failed to create log directory: '' @ err))) \<and>
   (SaveInLogFile t \<and> not_exist w (log_path t w) \<and> create_err w (log_path t w) = Some err \<longrightarrow>
      WriteLog t S M w =
        Exited (fatal_exit w [EvStat (log_path t w), EvCreate (log_path t w) None]
                  (''Failed to create log file: '' @ err))) \<and>
   (SaveInLogFile t \<and> open_err w (log_path t w) = Some err \<and> \<not> not_exist w (log_path t w) \<longrightarrow>
      WriteLog t S M w =
        Exited (fatal_exit w [EvStat (log_path t w), EvOpenFile (log_path t w) None]
                  (''Failed to open log file: '' @ err))) \<and>
   (SaveInLogFile t \<and> open_err w (log_path t w) = Some err \<and> not_exist w (log_path t w) \<and>
    create_err w (log_path t w) = None \<longrightarrow>
      WriteLog t S M w =
        Exited (fatal_exit (w\<lparr>files := (files w)(log_path t w \<mapsto> []), next_fd := Suc (next_fd w)\<rparr>)
                  [EvStat (log_path t w), EvCreate (log_path t w) (Some (next_fd w)),
                   EvClose (next_fd w), EvOpenFile (log_path t w) None]
                  (''Failed to open log file: '' @ err))) \<and>
   (executable w = Inl err \<longrightarrow> DefaultTwlc w = Panicked err (w\<lparr>trace := trace w @ [EvPanic err]\<rparr>)) \<and>
   (stat_err w dir = Some err \<longrightarrow>
      createLogDir dir w = Returned () (w\<lparr>trace := trace w @ [EvStat dir]\<rparr>) \<and>
      NewTwlc a b c d e f dir w =
        Returned \<lparr>SaveInLogFile = a, ShowInConsole = b, ColorMessages = c, BGColor = d,
                  FGColor = e, WithTime = f, LogDir = dir, LogFilePath = []\<rparr>
          (w\<lparr>trace := trace w @ [EvStat dir]\<rparr>)) \<and>
   (executable w = Inr exe \<and> stat_err w (filepath_Dir exe @ ''/logs/'') = Some err \<longrightarrow>
      DefaultTwlc w =
        Returned \<lparr>SaveInLogFile = True, ShowInConsole = True, ColorMessages = True, BGColor = True,
                  FGColor = True, WithTime = True, LogDir = filepath_Dir exe @ ''/logs/'',
                  LogFilePath = []\<rparr>
          (w\<lparr>trace := trace w @ [EvStat (filepath_Dir exe @ ''/logs/'')]\<rparr>)) \<and>
   (stat_err w (LogFilePath t) = Some err \<longrightarrow>
      createLogFile t w = Returned () (w\<lparr>trace := trace w @ [EvStat (LogFilePath t)]\<rparr>)) \<and>
   (SaveInLogFile t \<and> stat_err w (log_path t w) = Some err \<and> open_err w (log_path t w) = None \<longrightarrow>
      returned (WriteLog t S M w) \<and>
      new_events w (WriteLog t S M w) =
        [EvStat (log_path t w), EvOpenFile (log_path t w) (Some (next_fd w)),
         EvWrite (next_fd w) (log_line (now w) (WithTime t) (bracketed S M))] @
        console_events t S M (now w) @ [EvClose (next_fd w)] \<and>
      stderr (world_of (WriteLog t S M w)) =
        stderr w @ (if ShowInConsole t \<and> WithTime t then console_line t S M (now w) else [])) \<and>
   (SaveInLogFile t \<and> \<not> file_step_fatal t w \<and> write_err w (log_path t w) = Some err \<longrightarrow>
      returned (WriteLog t S M w) \<and>
      files (world_of (WriteLog t S M w)) (log_path t w) =
        Some (case files w (log_path t w) of None \<Rightarrow> [] | Some c \<Rightarrow> c) \<and>
      stderr (world_of (WriteLog t S M w)) =
        stderr w @ (if ShowInConsole t \<and> WithTime t then console_line t S M (now w) else []))"
proof -
  have dir_fatal: "createLogDir dir w =
        Exited (fatal_exit w [EvStat dir, EvMkdirAll dir] (''Failed to create log directory: '' @ err))"
    if "not_exist w dir" "mkdir_err w dir = Some err" for dir
    using that by (simp add: createLogDir_cases)
  have dir_dropped: "createLogDir dir w = Returned () (w\<lparr>trace := trace w @ [EvStat dir]\<rparr>)"
    if "stat_err w dir = Some err" for dir
    using that by (simp add: createLogDir_cases not_exist_def)
  have file_dropped: "createLogFile t w = Returned () (w\<lparr>trace := trace w @ [EvStat (LogFilePath t)]\<rparr>)"
    if "stat_err w (LogFilePath t) = Some err"
    using that by (simp add: createLogFile_cases not_exist_def)
  have create_fatal: "WriteLog t S M w =
        Exited (fatal_exit w [EvStat (log_path t w), EvCreate (log_path t w) None]
                  (''Failed to create log file: '' @ err))"
    if "SaveInLogFile t" "not_exist w (log_path t w)" "create_err w (log_path t w) = Some err"
    using that by (simp add: WriteLog_create_fatal fatal_exit_def)
  have write_ignored: "returned (WriteLog t S M w) \<and>
      files (world_of (WriteLog t S M w)) (log_path t w) =
        Some (case files w (log_path t w) of None \<Rightarrow> [] | Some c \<Rightarrow> c) \<and>
      stderr (world_of (WriteLog t S M w)) =
        stderr w @ (if ShowInConsole t \<and> WithTime t then console_line t S M (now w) else [])"
    if a: "SaveInLogFile t" "\<not> file_step_fatal t w" and b: "write_err w (log_path t w) = Some err"
    by (simp add: WriteLog_persist_ok [OF a] b)
  have 1: "not_exist w dir \<and> mkdir_err w dir = Some err \<longrightarrow>
      createLogDir dir w =
        Exited (fatal_exit w [EvStat dir, EvMkdirAll dir] (''Failed to create log directory: '' @ err)) \<and>
      NewTwlc a b c d e f dir w =
        Exited (fatal_exit w [EvStat dir, EvMkdirAll dir] (''Failed to create log directory: '' @ err))"
    using dir_fatal [of dir] by (simp add: NewTwlc_cases)
  have 2: "executable w = Inr exe \<and> not_exist w (filepath_Dir exe @ ''/logs/'') \<and>
    mkdir_err w (filepath_Dir exe @ ''/logs/'') = Some err \<longrightarrow>
      DefaultTwlc w =
        Exited (fatal_exit w [EvStat (filepath_Dir exe @ ''/logs/''), EvMkdirAll (filepath_Dir exe @ ''/logs/'')]
                  (''Failed to create log directory: '' @ err))"
    using dir_fatal [of "filepath_Dir exe @ ''/logs/''"] by (simp add: DefaultTwlc_cases)
  have 3: "executable w = Inl err \<longrightarrow> DefaultTwlc w = Panicked err (w\<lparr>trace := trace w @ [EvPanic err]\<rparr>)"
    by (simp add: DefaultTwlc_cases)
  have 4: "stat_err w dir = Some err \<longrightarrow>
      createLogDir dir w = Returned () (w\<lparr>trace := trace w @ [EvStat dir]\<rparr>) \<and>
      NewTwlc a b c d e f dir w =
        Returned \<lparr>SaveInLogFile = a, ShowInConsole = b, ColorMessages = c, BGColor = d,
                  FGColor = e, WithTime = f, LogDir = dir, LogFilePath = []\<rparr>
          (w\<lparr>trace := trace w @ [EvStat dir]\<rparr>)"
    using dir_dropped [of dir] by (simp add: NewTwlc_cases)
  have 5: "executable w = Inr exe \<and> stat_err w (filepath_Dir exe @ ''/logs/'') = Some err \<longrightarrow>
      DefaultTwlc w =
        Returned \<lparr>SaveInLogFile = True, ShowInConsole = True, ColorMessages = True, BGColor = True,
                  FGColor = True, WithTime = True, LogDir = filepath_Dir exe @ ''/logs/'',
                  LogFilePath = []\<rparr>
          (w\<lparr>trace := trace w @ [EvStat (filepath_Dir exe @ ''/logs/'')]\<rparr>)"
    using dir_dropped [of "filepath_Dir exe @ ''/logs/''"] by (simp add: DefaultTwlc_cases)
  have 6: "SaveInLogFile t \<and> not_exist w (log_path t w) \<and> create_err w (log_path t w) = Some err \<longrightarrow>
      WriteLog t S M w =
        Exited (fatal_exit w [EvStat (log_path t w), EvCreate (log_path t w) None]
                  (''Failed to create log file: '' @ err))"
    using create_fatal by simp
  have 7: "SaveInLogFile t \<and> open_err w (log_path t w) = Some err \<and> \<not> not_exist w (log_path t w) \<longrightarrow>
      WriteLog t S M w =
        Exited (fatal_exit w [EvStat (log_path t w), EvOpenFile (log_path t w) None]
                  (''Failed to open log file: '' @ err))"
    using WriteLog_open_fatal_exit(1) [of t w err S M] by simp
  have 8: "SaveInLogFile t \<and> open_err w (log_path t w) = Some err \<and> not_exist w (log_path t w) \<and>
    create_err w (log_path t w) = None \<longrightarrow>
      WriteLog t S M w =
        Exited (fatal_exit (w\<lparr>files := (files w)(log_path t w \<mapsto> []), next_fd := Suc (next_fd w)\<rparr>)
                  [EvStat (log_path t w), EvCreate (log_path t w) (Some (next_fd w)),
                   EvClose (next_fd w), EvOpenFile (log_path t w) None]
                  (''Failed to open log file: '' @ err))"
    using WriteLog_open_fatal_exit(2) [of t w err S M] by simp
  have 9: "stat_err w (LogFilePath t) = Some err \<longrightarrow>
      createLogFile t w = Returned () (w\<lparr>trace := trace w @ [EvStat (LogFilePath t)]\<rparr>)"
    using file_dropped by simp
  have 10: "SaveInLogFile t \<and> stat_err w (log_path t w) = Some err \<and> open_err w (log_path t w) = None \<longrightarrow>
      returned (WriteLog t S M w) \<and>
      new_events w (WriteLog t S M w) =
        [EvStat (log_path t w), EvOpenFile (log_path t w) (Some (next_fd w)),
         EvWrite (next_fd w) (log_line (now w) (WithTime t) (bracketed S M))] @
        console_events t S M (now w) @ [EvClose (next_fd w)] \<and>
      stderr (world_of (WriteLog t S M w)) =
        stderr w @ (if ShowInConsole t \<and> WithTime t then console_line t S M (now w) else [])"
    using WriteLog_stat_dropped [of t w err S M] by simp
  have 11: "SaveInLogFile t \<and> \<not> file_step_fatal t w \<and> write_err w (log_path t w) = Some err \<longrightarrow>
      returned (WriteLog t S M w) \<and>
      files (world_of (WriteLog t S M w)) (log_path t w) =
        Some (case files w (log_path t w) of None \<Rightarrow> [] | Some c \<Rightarrow> c) \<and>
      stderr (world_of (WriteLog t S M w)) =
        stderr w @ (if ShowInConsole t \<and> WithTime t then console_line t S M (now w) else [])"
    using write_ignored by simp
  show ?thesis
    by (intro conjI) (fact 1, fact 2, fact 6, fact 7, fact 8, fact 3, fact 4, fact 5, fact 9, fact 10, fact 11)
qed

theorem C6_fatal_errors_witness:
  "exited (NewTwlc True True False False False False ''/data/logs'' world_nomkdir) \<and>
   stderr (world_of (NewTwlc True True False False False False ''/data/logs'' world_nomkdir)) =
     ''2025/01/01 12:30:05 Failed to create log directory: read-only file system'' @ [LF] \<and>
   exited (DefaultTwlc world_nomkdir) \<and>
   exited (WriteLog plain_logger Info ''started'' world_ro) \<and>
   stderr (world_of (WriteLog plain_logger Info ''started'' world_ro)) =
     ''2025/01/01 12:30:05 Failed to create log file: permission denied'' @ [LF] \<and>
   exited (WriteLog plain_logger Info ''started'' world_noopen) \<and>
   new_events world_noopen (WriteLog plain_logger Info ''started'' world_noopen) =
     [EvStat ''/var/log/app/twlc_20250101.log'',
      EvCreate ''/var/log/app/twlc_20250101.log'' (Some 3),
      EvClose 3,
      EvOpenFile ''/var/log/app/twlc_20250101.log'' None,
      EvStderr (''2025/01/01 12:30:05 Failed to open log file: too many open files'' @ [LF]),
      EvExit 1] \<and>
   exited (WriteLog plain_logger Info ''started'' world_stale) \<and>
   new_events world_stale (WriteLog plain_logger Info ''started'' world_stale) =
     [EvStat ''/var/log/app/twlc_20250101.log'',
      EvOpenFile ''/var/log/app/twlc_20250101.log'' None,
      EvStderr (''2025/01/01 12:30:05 Failed to open log file: too many open files'' @ [LF]),
      EvExit 1] \<and>
   \<not> returned (DefaultTwlc world_noexe) \<and>
   returned (NewTwlc True True False False False False ''/data/logs'' world_noperm) \<and>
   returned (DefaultTwlc world_nostat) \<and>
   new_events world_nostat (DefaultTwlc world_nostat) = [EvStat ''/opt/app/bin/logs/''] \<and>
   returned (createLogFile (plain_logger\<lparr>LogFilePath := ''/var/log/app/twlc_20250101.log''\<rparr>) world_nostat) \<and>
   returned (WriteLog plain_logger Info ''started'' world_nostat) \<and>
   new_events world_nostat (WriteLog plain_logger Info ''started'' world_nostat) =
     [EvStat ''/var/log/app/twlc_20250101.log'',
      EvOpenFile ''/var/log/app/twlc_20250101.log'' (Some 3),
      EvWrite 3 (''2025/01/01 12:30:05 [INFO] started'' @ [LF]),
      EvStdout (''[INFO] started'' @ [LF]),
      EvClose 3] \<and>
   returned (WriteLog plain_logger Info ''started'' world_full)"
proof -
  let ?p = "''/var/log/app/twlc_20250101.log''"
  let ?t = "plain_logger\<lparr>LogFilePath := ?p\<rparr>"
  have p: "log_path plain_logger world_ro = ?p" "log_path plain_logger world_noopen = ?p"
    "log_path plain_logger world_full = ?p" "log_path plain_logger world_stale = ?p"
    "log_path plain_logger world_nostat = ?p"
    using sample_log_path [OF plain_logger_fields(5)]
      log_path_now [of world_ro world0 plain_logger]
      log_path_now [of world_noopen world0 plain_logger]
      log_path_now [of world_full world0 plain_logger]
      log_path_now [of world_stale world0 plain_logger]
      log_path_now [of world_nostat world0 plain_logger]
    by (simp_all add: world_ro_def world_noopen_def world_full_def world_stale_def world_nostat_def)
  have h: "LstdFlags_header (now world_nomkdir) = ''2025/01/01 12:30:05 ''"
    "LstdFlags_header (now world_ro) = ''2025/01/01 12:30:05 ''"
    "LstdFlags_header (now world_noopen) = ''2025/01/01 12:30:05 ''"
    "LstdFlags_header (now world_stale) = ''2025/01/01 12:30:05 ''"
    "LstdFlags_header (now world_nostat) = ''2025/01/01 12:30:05 ''"
    using sample_header
    by (simp_all add: world_nomkdir_def world_ro_def world_noopen_def world_stale_def world_nostat_def)
  have 1: "not_exist world_nomkdir ''/data/logs'' \<and>
           mkdir_err world_nomkdir ''/data/logs'' = Some ''read-only file system''"
    by (simp add: not_exist_def world_nomkdir_def world0_def)
  have 2: "executable world_nomkdir = Inr ''/opt/app/bin/app'' \<and>
           not_exist world_nomkdir (filepath_Dir ''/opt/app/bin/app'' @ ''/logs/'') \<and>
           mkdir_err world_nomkdir (filepath_Dir ''/opt/app/bin/app'' @ ''/logs/'') =
             Some ''read-only file system''"
    by (simp add: sample_dir) (simp add: not_exist_def world_nomkdir_def world0_def)
  have 3: "SaveInLogFile plain_logger \<and> not_exist world_ro (log_path plain_logger world_ro) \<and>
           create_err world_ro (log_path plain_logger world_ro) = Some ''permission denied''"
    by (simp add: p plain_logger_fields) (simp add: not_exist_def world_ro_def world0_def)
  have 4: "SaveInLogFile plain_logger \<and>
           open_err world_noopen (log_path plain_logger world_noopen) = Some ''too many open files'' \<and>
           not_exist world_noopen (log_path plain_logger world_noopen) \<and>
           create_err world_noopen (log_path plain_logger world_noopen) = None"
    by (simp add: p plain_logger_fields) (simp add: not_exist_def world_noopen_def world0_def)
  have 5: "SaveInLogFile plain_logger \<and>
           open_err world_stale (log_path plain_logger world_stale) = Some ''too many open files'' \<and>
           \<not> not_exist world_stale (log_path plain_logger world_stale)"
    by (simp add: p plain_logger_fields)
      (simp add: not_exist_def world_stale_def world_noopen_def world0_def)
  have 6: "executable world_noexe = Inl ''readlink /proc/self/exe: permission denied''"
    by (simp add: world_noexe_def)
  have 7: "stat_err world_noperm ''/data/logs'' = Some ''permission denied''"
    by (simp add: world_noperm_def)
  have 8: "executable world_nostat = Inr ''/opt/app/bin/app'' \<and>
           stat_err world_nostat (filepath_Dir ''/opt/app/bin/app'' @ ''/logs/'') = Some ''permission denied'' \<and>
           stat_err world_nostat (LogFilePath ?t) = Some ''permission denied'' \<and>
           stat_err world_nostat (log_path plain_logger world_nostat) = Some ''permission denied'' \<and>
           open_err world_nostat (log_path plain_logger world_nostat) = None"
    by (simp add: world_nostat_def world0_def)
  have 9: "SaveInLogFile plain_logger \<and> \<not> file_step_fatal plain_logger world_full \<and>
           write_err world_full (log_path plain_logger world_full) = Some ''no space left on device''"
    by (simp add: p plain_logger_fields file_step_fatal_def)
      (simp add: not_exist_def world_full_def world0_def)
  have s: "stderr world_nomkdir = []" "stderr world_ro = []" "stderr world_noopen = []"
    "stderr world_stale = []" "trace world_noopen = []" "trace world_stale = []"
    "next_fd world_noopen = 3" "next_fd world_nostat = 3" "trace world_nostat = []"
    by (simp_all add: world_nomkdir_def world_ro_def world_noopen_def world_stale_def
        world_nostat_def world0_def)
  have l: "log_line (now world_nostat) False (bracketed Info ''started'') =
      ''2025/01/01 12:30:05 [INFO] started'' @ [LF]"
    "console_events plain_logger Info ''started'' (now world_nostat) =
      [EvStdout (''[INFO] started'' @ [LF])]"
    by (simp_all add: log_line_def h bracketed_def Info_def LF_def console_events_def
        console_line_def colored_def plain_logger_fields)
  have a: "exited (NewTwlc True True False False False False ''/data/logs'' world_nomkdir) \<and>
      stderr (world_of (NewTwlc True True False False False False ''/data/logs'' world_nomkdir)) =
        ''2025/01/01 12:30:05 Failed to create log directory: read-only file system'' @ [LF] \<and>
      exited (DefaultTwlc world_nomkdir)"
    using 1 2
      C6_fatal_errors [where w = world_nomkdir and dir = "''/data/logs''"
        and err = "''read-only file system''" and exe = "''/opt/app/bin/app''"
        and a = True and b = True and c = False and d = False and e = False and f = False]
    by (simp add: fatal_exit_def log_line_def h s LF_def)
  have b: "exited (WriteLog plain_logger Info ''started'' world_ro) \<and>
      stderr (world_of (WriteLog plain_logger Info ''started'' world_ro)) =
        ''2025/01/01 12:30:05 Failed to create log file: permission denied'' @ [LF]"
    using 3
      C6_fatal_errors [where w = world_ro and t = plain_logger and err = "''permission denied''"
        and S = Info and M = "''started''"]
    by (simp add: fatal_exit_def log_line_def h s LF_def)
  have c: "exited (WriteLog plain_logger Info ''started'' world_noopen) \<and>
      new_events world_noopen (WriteLog plain_logger Info ''started'' world_noopen) =
        [EvStat ?p, EvCreate ?p (Some 3), EvClose 3, EvOpenFile ?p None,
         EvStderr (''2025/01/01 12:30:05 Failed to open log file: too many open files'' @ [LF]),
         EvExit 1]"
    using 4
      C6_fatal_errors [where w = world_noopen and t = plain_logger
        and err = "''too many open files''" and S = Info and M = "''started''"]
    by (simp add: fatal_exit_def log_line_def h s LF_def new_events_def p)
  have d: "exited (WriteLog plain_logger Info ''started'' world_stale) \<and>
      new_events world_stale (WriteLog plain_logger Info ''started'' world_stale) =
        [EvStat ?p, EvOpenFile ?p None,
         EvStderr (''2025/01/01 12:30:05 Failed to open log file: too many open files'' @ [LF]),
         EvExit 1]"
    using 5
      C6_fatal_errors [where w = world_stale and t = plain_logger
        and err = "''too many open files''" and S = Info and M = "''started''"]
    by (simp add: fatal_exit_def log_line_def h s LF_def new_events_def p)
  have e: "\<not> returned (DefaultTwlc world_noexe)"
    using 6
      C6_fatal_errors [where w = world_noexe and err = "''readlink /proc/self/exe: permission denied''"]
    by simp
  have f: "returned (NewTwlc True True False False False False ''/data/logs'' world_noperm)"
    using 7
      C6_fatal_errors [where w = world_noperm and dir = "''/data/logs''"
        and err = "''permission denied''"
        and a = True and b = True and c = False and d = False and e = False and f = False]
    by simp
  have g: "returned (DefaultTwlc world_nostat) \<and>
      new_events world_nostat (DefaultTwlc world_nostat) = [EvStat ''/opt/app/bin/logs/''] \<and>
      returned (createLogFile ?t world_nostat)"
    using 8
      C6_fatal_errors [where w = world_nostat and t = ?t and exe = "''/opt/app/bin/app''"
        and err = "''permission denied''"]
    by (simp add: new_events_def s sample_dir)
  have i: "returned (WriteLog plain_logger Info ''started'' world_nostat) \<and>
      new_events world_nostat (WriteLog plain_logger Info ''started'' world_nostat) =
        [EvStat ?p, EvOpenFile ?p (Some 3),
         EvWrite 3 (''2025/01/01 12:30:05 [INFO] started'' @ [LF]),
         EvStdout (''[INFO] started'' @ [LF]), EvClose 3]"
    using 8
      C6_fatal_errors [where w = world_nostat and t = plain_logger
        and err = "''permission denied''" and S = Info and M = "''started''"]
    by (simp add: s p l plain_logger_fields)
  have j: "returned (WriteLog plain_logger Info ''started'' world_full)"
    using 9
      C6_fatal_errors [where w = world_full and t = plain_logger
        and err = "''no space left on device''" and S = Info and M = "''started''"]
    by simp
  show ?thesis using a b c d e f g i j by simp
qed

text \<open>The claim as stated fails in its last part: errors are dropped. A write to a log file
  on a full disk returns with nothing written and nothing reported, and a constructor whose
  \<^verbatim>\<open>os.Stat\<close> is refused returns without a directory and without a word.\<close>

theorem C6_counterexample:
  "write_err world_full ''/var/log/app/twlc_20250101.log'' = Some ''no space left on device'' \<and>
   returned (WriteLog plain_logger Info ''started'' world_full) \<and>
   files (world_of (WriteLog plain_logger Info ''started'' world_full))
     ''/var/log/app/twlc_20250101.log'' = Some [] \<and>
   stderr (world_of (WriteLog plain_logger Info ''started'' world_full)) = [] \<and>
   stat_err world_noperm ''/data/logs'' = Some ''permission denied'' \<and>
   returned (NewTwlc True True False False False False ''/data/logs'' world_noperm) \<and>
   ''/data/logs'' \<notin> dirs (world_of (NewTwlc True True False False False False ''/data/logs'' world_noperm)) \<and>
   stderr (world_of (NewTwlc True True False False False False ''/data/logs'' world_noperm)) = []"
proof -
  let ?p = "''/var/log/app/twlc_20250101.log''"
  have p: "log_path plain_logger world_full = ?p"
    using sample_log_path [OF plain_logger_fields(5)] log_path_now [of world_full world0 plain_logger]
    by (simp add: world_full_def)
  have nf: "\<not> file_step_fatal plain_logger world_full"
    by (simp add: p file_step_fatal_def) (simp add: not_exist_def world_full_def world0_def)
  have w: "write_err world_full ?p = Some ''no space left on device''" "files world_full ?p = None"
    "stderr world_full = []"
    by (simp_all add: world_full_def world0_def)
  have a: "returned (WriteLog plain_logger Info ''started'' world_full) \<and>
     files (world_of (WriteLog plain_logger Info ''started'' world_full)) ?p = Some [] \<and>
     stderr (world_of (WriteLog plain_logger Info ''started'' world_full)) = []"
    by (simp add: WriteLog_persist_ok [OF plain_logger_fields(1) nf] p w plain_logger_fields)
  have b: "stat_err world_noperm ''/data/logs'' = Some ''permission denied''"
    by (simp add: world_noperm_def)
  have c: "NewTwlc True True False False False False ''/data/logs'' world_noperm =
      Returned \<lparr>SaveInLogFile = True, ShowInConsole = True, ColorMessages = False, BGColor = False,
                FGColor = False, WithTime = False, LogDir = ''/data/logs'', LogFilePath = []\<rparr>
        (world_noperm\<lparr>trace := trace world_noperm @ [EvStat ''/data/logs'']\<rparr>)"
    by (simp add: NewTwlc_cases createLogDir_cases not_exist_def b)
  have d: "''/data/logs'' \<notin> dirs world_noperm" "stderr world_noperm = []"
    by (simp_all add: world_noperm_def world0_def)
  show ?thesis using a b w(1) d by (simp add: c)
qed

subsection \<open>C7: \<open>StructToJson\<close> hands the encoder's failure to the caller\<close>



subsection \<open>C8: the JSON round trip\<close>

text \<open>
  Claim C8 is about \<^verbatim>\<open>encoding/json\<close>: its encoder, a parser, and Go values reached by
  reflection (floating-point numbers, pointers and their cycles). \<open>StructToJson\<close> forwards to
  the encoder and the repository has no parser, so there is nothing of this program to state
  the round trip about. What \<open>StructToJson\<close> does with the encoder's answer is C7.
\<close>

subsection \<open>C9: a write changes no field but \<open>LogFilePath\<close>\<close>

text \<open>
  Claim C9. When \<open>WriteLog\<close> returns, the logger it leaves has the same \<open>SaveInLogFile\<close>,
  \<open>ShowInConsole\<close>, \<open>ColorMessages\<close>, \<open>BGColor\<close>, \<open>FGColor\<close>, \<open>WithTime\<close> and \<open>LogDir\<close> as
  before; the same holds for each per-severity method and for any run of writes. Only
  \<open>LogFilePath\<close> can differ, and without persistence the logger is unchanged altogether.
\<close>

theorem C9_config_frame:
  "(WriteLog t S M w = Returned t' w' \<longrightarrow>
      SaveInLogFile t' = SaveInLogFile t \<and> ShowInConsole t' = ShowInConsole t \<and>
      ColorMessages t' = ColorMessages t \<and> BGColor t' = BGColor t \<and> FGColor t' = FGColor t \<and>
      WithTime t' = WithTime t \<and> LogDir t' = LogDir t \<and>
      t' = t\<lparr>LogFilePath := LogFilePath t'\<rparr> \<and> (\<not> SaveInLogFile t \<longrightarrow> t' = t)) \<and>
   (Twlc_Error t M w = Returned t' w' \<longrightarrow> same_config t' t) \<and>
   (Twlc_Warning t M w = Returned t' w' \<longrightarrow> same_config t' t) \<and>
   (Twlc_Info t M w = Returned t' w' \<longrightarrow> same_config t' t) \<and>
   (Twlc_Success t M w = Returned t' w' \<longrightarrow> same_config t' t) \<and>
   (Twlc_Debug t M w = Returned t' w' \<longrightarrow> same_config t' t) \<and>
   (Twlc_Trace t M w = Returned t' w' \<longrightarrow> same_config t' t) \<and>
   (write_all t steps w = Returned t' w' \<longrightarrow> same_config t' t)"
proof -
  have "WriteLog t S M w = Returned t' w' \<longrightarrow>
      same_config t' t \<and> t' = t\<lparr>LogFilePath := LogFilePath t'\<rparr> \<and> (\<not> SaveInLogFile t \<longrightarrow> t' = t)"
    using WriteLog_same_config [of t S M w t' w'] WriteLog_frame [of t S M w t' w']
      WriteLog_no_persist [of t S M w]
    by auto
  moreover have "\<And>S. WriteLog t S M w = Returned t' w' \<longrightarrow> same_config t' t"
    using WriteLog_same_config by blast
  moreover have "write_all t steps w = Returned t' w' \<longrightarrow> same_config t' t"
    using write_all_same_config by blast
  ultimately show ?thesis
    by (simp add: same_config_def Twlc_Error_def Twlc_Warning_def Twlc_Info_def
        Twlc_Success_def Twlc_Debug_def Twlc_Trace_def)
qed

theorem C9_config_frame_witness:
  "returned (WriteLog color_logger Error ''disk full'' world0) \<and>
   map_option LogFilePath (value_of (WriteLog color_logger Error ''disk full'' world0)) =
     Some ''/var/log/app/twlc_20250101.log'' \<and>
   map_option (\<lambda>t. t\<lparr>LogFilePath := []\<rparr>)
     (value_of (WriteLog color_logger Error ''disk full'' world0)) = Some color_logger"
proof -
  have d: "LogDir color_logger = ''/var/log/app''" "SaveInLogFile color_logger"
    "LogFilePath color_logger = []"
    by (simp_all add: color_logger_def)
  have r: "returned (WriteLog color_logger Error ''disk full'' world0)"
    using WriteLog_outcome sample_not_fatal [OF d(1)] by blast
  then obtain t' w' where eq: "WriteLog color_logger Error ''disk full'' world0 = Returned t' w'"
    using returnedE by blast
  have p: "LogFilePath t' = ''/var/log/app/twlc_20250101.log''"
    using WriteLog_persist_path [OF d(2) eq] sample_log_path [OF d(1)] by simp
  have "t' = color_logger\<lparr>LogFilePath := LogFilePath t'\<rparr>"
    using C9_config_frame [of color_logger Error "''disk full''" world0 t' w'] eq by blast
  then have "t'\<lparr>LogFilePath := []\<rparr> = color_logger"
    using d(3) by (cases t') (simp add: color_logger_def)
  then show ?thesis using r p eq by simp
qed

subsection \<open>C10: the path field is empty until the first persisting write\<close>

text \<open>
  Claim C10. The logger \<open>NewTwlc\<close> returns has the empty string as \<open>LogFilePath\<close>. A run of
  any number of writes on a logger without persistence, whatever the rest of the system does
  to the world in between, returns and leaves the logger as it was, so the field stays empty.
  A write with persistence enabled that returns leaves the path of the day's log file in the
  field, and that path is not empty.
\<close>

theorem C10_log_file_path:
  "(NewTwlc a b c d e f dir w = Returned t w' \<longrightarrow> LogFilePath t = []) \<and>
   (\<not> SaveInLogFile t \<longrightarrow> value_of (write_all t steps w) = Some t) \<and>
   (SaveInLogFile t \<and> WriteLog t S M w = Returned t' w' \<longrightarrow>
      LogFilePath t' = log_path t w \<and> LogFilePath t' \<noteq> [])"
proof -
  have "\<not> SaveInLogFile t \<longrightarrow> value_of (write_all t steps w) = Some t"
    using write_all_no_persist [of t steps w] by auto
  then show ?thesis
    using NewTwlc_fields [of a b c d e f dir w t w'] WriteLog_persist_path [of t S M w t' w']
      log_path_nonempty [of t w]
    by auto
qed

theorem C10_log_file_path_witness:
  "map_option LogFilePath
     (value_of (NewTwlc False True True False True False ''/var/log/app'' world0)) = Some [] \<and>
   value_of (write_all console_logger
     [(\<lambda>w. w, Info, ''one''), (\<lambda>w. w\<lparr>now := (now w)\<lparr>day := 2\<rparr>\<rparr>, Error, ''two'')] world0) =
     Some console_logger \<and>
   LogFilePath console_logger = [] \<and>
   map_option LogFilePath
     (value_of (WriteLog (console_logger\<lparr>SaveInLogFile := True\<rparr>) Info ''three'' world0)) =
     Some ''/var/log/app/twlc_20250101.log''"
proof -
  let ?t = "console_logger\<lparr>SaveInLogFile := True\<rparr>"
  have n: "NewTwlc False True True False True False ''/var/log/app'' world0 =
           Returned console_logger (emit (EvStat ''/var/log/app'') world0)"
    by (simp add: NewTwlc_def createLogDir_def os_Stat_def console_logger_def)
      (simp add: world0_def)
  have c: "\<not> SaveInLogFile console_logger" "LogFilePath console_logger = []"
    by (simp_all add: console_logger_def)
  have d: "LogDir ?t = ''/var/log/app''" "SaveInLogFile ?t"
    by (simp_all add: console_logger_def)
  have "returned (WriteLog ?t Info ''three'' world0)"
    using WriteLog_outcome sample_not_fatal [OF d(1)] by blast
  then obtain t' w' where eq: "WriteLog ?t Info ''three'' world0 = Returned t' w'"
    using returnedE by blast
  have "LogFilePath t' = ''/var/log/app/twlc_20250101.log''"
    using C10_log_file_path [where t = ?t and S = Info and M = "''three''" and w = world0
        and t' = t' and w' = w'] d(2) eq sample_log_path [OF d(1)]
    by simp
  then show ?thesis
    using n c eq
      C10_log_file_path [where t = console_logger and w = world0 and steps =
        "[(\<lambda>w. w, Info, ''one''), (\<lambda>w. w\<lparr>now := (now w)\<lparr>day := 2\<rparr>\<rparr>, Error, ''two'')]"]
    by simp
qed

end
